theory Spec2Isabelle
  imports Complex_Main "HOL-Library.AList" "HOL-Library.Log_Nat"
begin

section \<open>JavaScript values\<close>

text \<open>
  The three scripts of the repository are browser scripts: \<^verbatim>\<open>src/unnamed/part_000\<close> (called
  the main script below), and the two scripts stored one after the other in
  \<^verbatim>\<open>src/rum-sass.js\<close> (lines 1-316, suffix \<open>_sass\<close>; lines 317-643, suffix \<open>_sass2\<close>).
  Their data are plain JavaScript values. An object is an association list of its own
  enumerable properties in insertion order. Two constructors stand for strings that a
  library call produces and that no script inspects: \<open>JIso t\<close> is
  \<^verbatim>\<open>new Date(t).toISOString()\<close> and \<open>JStringOf v\<close> is \<^verbatim>\<open>String(v)\<close> for a value \<open>v\<close>
  that is not itself a string. The numbers carried in records (clock readings and their
  differences, status codes) are real numbers; the layout-shift sum, the one number a
  script computes and a property below is about, is computed in IEEE doubles (section
  \<open>Double-precision addition\<close>).
\<close>

datatype jsval =
    JUndefined
  | JNull
  | JBool bool
  | JNum real
  | JStr string
  | JObj "(string \<times> jsval) list"
  | JIso real
  | JStringOf jsval

type_synonym jsobj = "(string \<times> jsval) list"

text \<open>Truthiness, as \<^verbatim>\<open>||\<close>, \<^verbatim>\<open>&&\<close>, \<^verbatim>\<open>?:\<close> and \<^verbatim>\<open>if\<close> test it.\<close>

fun truthy :: "jsval \<Rightarrow> bool" where
  "truthy JUndefined = False"
| "truthy JNull = False"
| "truthy (JBool b) = b"
| "truthy (JNum x) = (x \<noteq> 0)"
| "truthy (JStr s) = (s \<noteq> [])"
| "truthy (JObj ps) = True"
| "truthy (JIso t) = True"
| "truthy (JStringOf v) = True"

text \<open>\<^verbatim>\<open>a || b\<close>\<close>

definition js_or :: "jsval \<Rightarrow> jsval \<Rightarrow> jsval" where
  "js_or a b = (if truthy a then a else b)"

text \<open>\<^verbatim>\<open>String(v)\<close>: a string is returned as it is.\<close>

definition js_String :: "jsval \<Rightarrow> jsval" where
  "js_String v = (case v of JStr s \<Rightarrow> JStr s | _ \<Rightarrow> JStringOf v)"

text \<open>
  Property read \<^verbatim>\<open>v.k\<close>. On \<^verbatim>\<open>null\<close> and \<^verbatim>\<open>undefined\<close> the read throws a TypeError
  (\<open>None\<close>); on any other value without that property it gives \<^verbatim>\<open>undefined\<close>.
\<close>

definition js_get :: "jsval \<Rightarrow> string \<Rightarrow> jsval option" where
  "js_get v k =
     (case v of
        JUndefined \<Rightarrow> None
      | JNull \<Rightarrow> None
      | JObj ps \<Rightarrow> (case map_of ps k of None \<Rightarrow> Some JUndefined | Some x \<Rightarrow> Some x)
      | _ \<Rightarrow> Some JUndefined)"

text \<open>Optional chaining \<^verbatim>\<open>v?.k\<close>: \<^verbatim>\<open>undefined\<close> where the plain read would throw.\<close>

definition js_get_opt :: "jsval \<Rightarrow> string \<Rightarrow> jsval" where
  "js_get_opt v k = (case js_get v k of None \<Rightarrow> JUndefined | Some x \<Rightarrow> x)"

text \<open>
  Object spread \<^verbatim>\<open>{ ...a, ...b }\<close>: the properties of \<open>a\<close>, then each property of \<open>b\<close> in
  turn, which replaces the value of a key already present (the key keeps its place) or
  is appended.
\<close>

definition spread :: "jsobj \<Rightarrow> jsobj \<Rightarrow> jsobj" where
  "spread a b = fold (\<lambda>(k, v) acc. AList.update k v acc) b a"

text \<open>The TypeError a property read of \<^verbatim>\<open>null\<close> or \<^verbatim>\<open>undefined\<close> throws.\<close>

definition TypeError :: jsval where
  "TypeError = JObj [(''name'', JStr ''TypeError'')]"

section \<open>Configuration, identity and the browser\<close>

text \<open>
  The values each script reads once when it is evaluated (lines 3-24 of the main script):
  the attributes of its script tag and the session identifier. \<open>endpointId\<close> is \<open>None\<close>
  when the attribute is absent (\<^verbatim>\<open>null\<close>).
\<close>

record config =
  endpointId :: "string option"
  apiBaseUrl :: string
  errorsBaseUrl :: string
  sessionId :: string

definition endpoint_val :: "config \<Rightarrow> jsval" where
  "endpoint_val cfg = (case endpointId cfg of None \<Rightarrow> JNull | Some e \<Rightarrow> JStr e)"

text \<open>\<^verbatim>\<open>const rumIds = { session_id: sessionId, endpoint_id: endpointId }\<close>\<close>

definition rumIds :: "config \<Rightarrow> jsobj" where
  "rumIds cfg = [(''session_id'', JStr (sessionId cfg)), (''endpoint_id'', endpoint_val cfg)]"

text \<open>
  What a script hands to the browser for delivery: a call of \<^verbatim>\<open>navigator.sendBeacon\<close> or
  a call of \<^verbatim>\<open>fetch\<close> with method POST, each with the URL and the payload whose JSON text
  is the body.
\<close>

datatype delivery = Beacon string jsobj | Request string jsobj

fun delivery_url :: "delivery \<Rightarrow> string" where
  "delivery_url (Beacon u p) = u"
| "delivery_url (Request u p) = u"

fun delivery_payload :: "delivery \<Rightarrow> jsobj" where
  "delivery_payload (Beacon u p) = p"
| "delivery_payload (Request u p) = p"

fun is_beacon :: "delivery \<Rightarrow> bool" where
  "is_beacon (Beacon u p) = True"
| "is_beacon (Request u p) = False"

text \<open>
  The part of the browser the scripts read and write: the monotonic clock
  \<^verbatim>\<open>performance.now()\<close>, \<^verbatim>\<open>performance.timeOrigin\<close>, the wall clock \<^verbatim>\<open>Date.now()\<close>,
  whether \<^verbatim>\<open>navigator.sendBeacon\<close> exists, \<^verbatim>\<open>window.location.href\<close>,
  \<^verbatim>\<open>document.visibilityState === 'hidden'\<close>, the stored \<^verbatim>\<open>rum_session_start\<close>, and the
  deliveries handed over so far, oldest first.
\<close>

record world =
  perf_now :: real
  timeOrigin :: real
  date_now :: real
  has_sendBeacon :: bool
  href :: string
  doc_hidden :: bool
  session_start :: "real option"
  sent :: "delivery list"

section \<open>Delivery\<close>

text \<open>
  Main script, lines 27-52. \<^verbatim>\<open>post\<close> calls the global \<^verbatim>\<open>fetch\<close>, which after
  initialisation is the shim installed by the script itself; the model records that the
  payload was handed to \<^verbatim>\<open>fetch\<close> and does not follow that call further (it is an
  instrumented call of its own). A failure of that request is swallowed by
  \<^verbatim>\<open>.catch(() => {})\<close>. The calls of \<^verbatim>\<open>sendBeacon\<close> and \<^verbatim>\<open>fetch\<close> themselves are
  taken not to throw.
\<close>

definition toEpochMs :: "world \<Rightarrow> real \<Rightarrow> real" where
  "toEpochMs w monotonicMs = timeOrigin w + monotonicMs"

definition post :: "string \<Rightarrow> jsobj \<Rightarrow> bool \<Rightarrow> world \<Rightarrow> world" where
  "post url payload useBeacon w =
     (if useBeacon \<and> has_sendBeacon w
      then w\<lparr>sent := sent w @ [Beacon url payload]\<rparr>
      else w\<lparr>sent := sent w @ [Request url payload]\<rparr>)"

definition sendMetrics :: "config \<Rightarrow> jsobj \<Rightarrow> world \<Rightarrow> world" where
  "sendMetrics cfg data w =
     (let payload = spread data (rumIds cfg)
      in post (apiBaseUrl cfg @ ''/rum/page-metrics'') payload True w)"

definition sendError :: "config \<Rightarrow> jsobj \<Rightarrow> world \<Rightarrow> world" where
  "sendError cfg data w =
     (let payload = spread data (rumIds cfg)
      in post (errorsBaseUrl cfg @ ''/rum/errors'') payload False w)"

text \<open>First script of rum-sass.js, lines 18-43.\<close>

definition sendMetrics_sass :: "config \<Rightarrow> jsobj \<Rightarrow> world \<Rightarrow> world" where
  "sendMetrics_sass cfg data w =
     (let payload = spread data (rumIds cfg);
          url = apiBaseUrl cfg @ ''/rum/page-metrics''
      in if has_sendBeacon w
         then w\<lparr>sent := sent w @ [Beacon url payload]\<rparr>
         else w\<lparr>sent := sent w @ [Request url payload]\<rparr>)"

definition sendError_sass :: "config \<Rightarrow> jsobj \<Rightarrow> world \<Rightarrow> world" where
  "sendError_sass cfg data w =
     (let payload = spread data (rumIds cfg);
          url = errorsBaseUrl cfg @ ''/rum/errors''
      in w\<lparr>sent := sent w @ [Request url payload]\<rparr>)"

text \<open>
  Second script of rum-sass.js, lines 449-466. It has no \<^verbatim>\<open>sendError\<close> and a fixed URL.
\<close>

definition sendMetrics_sass2 :: "config \<Rightarrow> jsobj \<Rightarrow> world \<Rightarrow> world" where
  "sendMetrics_sass2 cfg data w =
     (let payload = spread data
            [(''session_id'', JStr (sessionId cfg)), (''endpoint_id'', endpoint_val cfg)]
      in if has_sendBeacon w
         then w\<lparr>sent := sent w @ [Beacon ''http://localhost:8000/rum/page-metrics'' payload]\<rparr>
         else w\<lparr>sent := sent w @ [Request ''http://localhost:8000/rum/page-metrics'' payload]\<rparr>)"

text \<open>The deliveries a step added to the log.\<close>

definition emitted :: "world \<Rightarrow> world \<Rightarrow> delivery list" where
  "emitted w w' = drop (length (sent w)) (sent w')"

text \<open>The \<^verbatim>\<open>trigger\<close> field of a delivered payload.\<close>

definition trigger_of :: "delivery \<Rightarrow> jsval option" where
  "trigger_of d = map_of (delivery_payload d) ''trigger''"

definition with_trigger :: "string \<Rightarrow> delivery list \<Rightarrow> delivery list" where
  "with_trigger t ds = filter (\<lambda>d. trigger_of d = Some (JStr t)) ds"

section \<open>Error capture\<close>

text \<open>
  The fields of an \<^verbatim>\<open>error\<close> event the listeners read, and the \<^verbatim>\<open>reason\<close> of an
  \<^verbatim>\<open>unhandledrejection\<close> event.
\<close>

record error_event =
  ev_message :: jsval
  ev_filename :: jsval
  ev_lineno :: jsval
  ev_colno :: jsval
  ev_error :: jsval

text \<open>
  \<^verbatim>\<open>event.error ? event.error.stack : null\<close>. The read is guarded by the truthiness test,
  and a truthy value is neither \<^verbatim>\<open>null\<close> nor \<^verbatim>\<open>undefined\<close>, so it does not throw.
\<close>

definition stack_of :: "jsval \<Rightarrow> jsval" where
  "stack_of e = (if truthy e then js_get_opt e ''stack'' else JNull)"

definition error_fields :: "error_event \<Rightarrow> jsobj" where
  "error_fields event =
     [(''message'', ev_message event),
      (''source'', ev_filename event),
      (''lineno'', ev_lineno event),
      (''colno'', ev_colno event),
      (''stack'', stack_of (ev_error event))]"

text \<open>Main script, lines 197-208, and first script of rum-sass.js, lines 156-167.\<close>

definition on_error :: "config \<Rightarrow> error_event \<Rightarrow> world \<Rightarrow> world" where
  "on_error cfg event w =
     sendError cfg [(''trigger'', JStr ''js_error''), (''error'', JObj (error_fields event))] w"

definition on_error_sass :: "config \<Rightarrow> error_event \<Rightarrow> world \<Rightarrow> world" where
  "on_error_sass cfg event w =
     sendError_sass cfg
       [(''trigger'', JStr ''js_error''), (''error'', JObj (error_fields event))] w"

text \<open>
  \<^verbatim>\<open>event.reason && event.reason.stack ? event.reason.stack : null\<close>
\<close>

definition rejection_stack :: "jsval \<Rightarrow> jsval" where
  "rejection_stack reason =
     (if truthy reason \<and> truthy (js_get_opt reason ''stack'')
      then js_get_opt reason ''stack'' else JNull)"

text \<open>Main script, lines 210-218.\<close>

definition on_unhandledrejection :: "config \<Rightarrow> jsval \<Rightarrow> world \<Rightarrow> world" where
  "on_unhandledrejection cfg reason w =
     sendError cfg
       [(''trigger'', JStr ''js_promise_rejection''),
        (''error'', JObj
           [(''message'',
               if truthy reason
               then js_or (js_get_opt reason ''message'') (js_String reason)
               else JStr ''Unhandled Promise Rejection''),
            (''stack'', rejection_stack reason)])] w"

text \<open>First script of rum-sass.js, lines 169-177: the reason itself, not its string.\<close>

definition on_unhandledrejection_sass :: "config \<Rightarrow> jsval \<Rightarrow> world \<Rightarrow> world" where
  "on_unhandledrejection_sass cfg reason w =
     sendError_sass cfg
       [(''trigger'', JStr ''js_promise_rejection''),
        (''error'', JObj
           [(''message'',
               if truthy reason
               then js_or (js_get_opt reason ''message'') reason
               else JStr ''Unhandled Promise Rejection''),
            (''stack'', rejection_stack reason)])] w"

text \<open>
  Second script of rum-sass.js: every envelope starts with the same four fields
  (for example lines 471-474), and the error listeners (lines 469-498) call
  \<^verbatim>\<open>sendMetrics\<close>.
\<close>

definition envelope_head_sass2 :: "config \<Rightarrow> world \<Rightarrow> jsobj" where
  "envelope_head_sass2 cfg w =
     [(''session_id'', JStr (sessionId cfg)),
      (''endpoint_id'', endpoint_val cfg),
      (''url'', JStr (href w)),
      (''timestamp'', JIso (date_now w))]"

definition on_error_sass2 :: "config \<Rightarrow> error_event \<Rightarrow> world \<Rightarrow> world" where
  "on_error_sass2 cfg event w =
     sendMetrics_sass2 cfg
       (envelope_head_sass2 cfg w @
        [(''trigger'', JStr ''js_error''), (''error'', JObj (error_fields event))]) w"

definition on_unhandledrejection_sass2 :: "config \<Rightarrow> jsval \<Rightarrow> world \<Rightarrow> world" where
  "on_unhandledrejection_sass2 cfg reason w =
     sendMetrics_sass2 cfg
       (envelope_head_sass2 cfg w @
        [(''trigger'', JStr ''js_promise_rejection''),
         (''error'', JObj
            [(''message'',
                if truthy reason
                then js_or (js_get_opt reason ''message'') reason
                else JStr ''Unhandled Promise Rejection''),
             (''stack'', rejection_stack reason)])]) w"

section \<open>The fetch shim\<close>

text \<open>
  The first argument of \<^verbatim>\<open>fetch\<close> is a string or a \<^verbatim>\<open>Request\<close> object, of which the shim
  reads the \<^verbatim>\<open>url\<close>. Of the second argument the shim reads \<^verbatim>\<open>method\<close> and \<^verbatim>\<open>headers\<close>
  (a plain object); \<open>None\<close> is an absent field, and an absent argument.
\<close>

datatype fetch_input = InputString string | InputRequest string

fun input_url :: "fetch_input \<Rightarrow> string" where
  "input_url (InputString s) = s"
| "input_url (InputRequest u) = u"

record fetch_init =
  init_method :: "string option"
  init_headers :: "jsobj option"

record response =
  resp_status :: nat
  resp_body :: string

text \<open>
  How the promise of a \<^verbatim>\<open>fetch\<close> call settles. A fetch function takes the two arguments
  and the browser state at the call and gives the outcome with the browser state at the
  time the promise settles.
\<close>

datatype outcome = Resolved response | Rejected jsval

type_synonym fetch_fn = "fetch_input \<Rightarrow> fetch_init option \<Rightarrow> world \<Rightarrow> outcome \<times> world"

definition upper_char :: "char \<Rightarrow> char" where
  "upper_char c =
     (let n = (of_char c :: nat) in if 97 \<le> n \<and> n \<le> 122 then char_of (n - 32) else c)"

text \<open>\<^verbatim>\<open>s.toUpperCase()\<close>, on ASCII letters.\<close>

definition toUpperCase :: "string \<Rightarrow> string" where
  "toUpperCase s = map upper_char s"

text \<open>
  \<^verbatim>\<open>init = init || {}; init.headers = { ...(init.headers || {}), 'X-RUM-Session-Id': ...,
  'X-RUM-Endpoint-Id': ... }\<close> (main script, lines 223-228; rum-sass.js, lines 182-187).
\<close>

definition with_rum_headers :: "config \<Rightarrow> fetch_init option \<Rightarrow> fetch_init" where
  "with_rum_headers cfg init0 =
     (let init = (case init0 of
                    None \<Rightarrow> \<lparr>init_method = None, init_headers = None\<rparr>
                  | Some i \<Rightarrow> i)
      in init\<lparr>init_headers :=
           Some (spread (case init_headers init of None \<Rightarrow> [] | Some h \<Rightarrow> h)
                   [(''X-RUM-Session-Id'', JStr (sessionId cfg)),
                    (''X-RUM-Endpoint-Id'', endpoint_val cfg)])\<rparr>)"

text \<open>\<^verbatim>\<open>init.method || 'GET'\<close>: the empty string is falsy.\<close>

definition method_or_GET :: "string option \<Rightarrow> string" where
  "method_or_GET m = (case m of None \<Rightarrow> ''GET'' | Some s \<Rightarrow> if s = [] then ''GET'' else s)"

text \<open>
  Main script, lines 221-285. \<open>fetchFn\<close> is the value of \<^verbatim>\<open>window.fetch\<close> when the script
  is evaluated. The handlers of \<^verbatim>\<open>.then(...).catch(...)\<close> run in the browser state in which
  the promise settles; the \<^verbatim>\<open>then\<close> handler returns the response, the \<^verbatim>\<open>catch\<close> handler
  throws the value it caught.
\<close>

definition window_fetch :: "config \<Rightarrow> fetch_fn \<Rightarrow> fetch_fn" where
  "window_fetch cfg fetchFn input init0 w =
     (let init = with_rum_headers cfg init0;
          startMono = perf_now w;
          startEpoch = toEpochMs w startMono;
          method = toUpperCase (method_or_GET (init_method init));
          endpoint = input_url input
      in case fetchFn input (Some init) w of
           (Resolved response, w1) \<Rightarrow>
             (let endMono = perf_now w1;
                  endEpoch = toEpochMs w1 endMono;
                  duration = endMono - startMono;
                  rec = [(''api'', JObj
                           [(''type'', JStr ''fetch''),
                            (''method'', JStr method),
                            (''endpoint'', JStr endpoint),
                            (''status'', JNum (real (resp_status response))),
                            (''duration'', JNum duration),
                            (''start_epoch_ms'', JNum startEpoch),
                            (''end_epoch_ms'', JNum endEpoch),
                            (''start_ts'', JIso startEpoch),
                            (''end_ts'', JIso endEpoch)])]
              in (Resolved response,
                  if 400 \<le> resp_status response
                  then sendError cfg ((''trigger'', JStr ''api_call_error'') # rec) w1
                  else sendMetrics cfg ((''trigger'', JStr ''api_call'') # rec) w1))
         | (Rejected err, w1) \<Rightarrow>
             (let endMono = perf_now w1;
                  endEpoch = toEpochMs w1 endMono;
                  duration = endMono - startMono
              in (Rejected err,
                  sendError cfg
                    [(''trigger'', JStr ''api_call_exception''),
                     (''api'', JObj
                        [(''type'', JStr ''fetch''),
                         (''method'', JStr method),
                         (''endpoint'', JStr endpoint),
                         (''status'', JNull),
                         (''duration'', JNum duration),
                         (''error'', js_or (js_get_opt err ''message'') (js_String err)),
                         (''start_epoch_ms'', JNum startEpoch),
                         (''end_epoch_ms'', JNum endEpoch),
                         (''start_ts'', JIso startEpoch),
                         (''end_ts'', JIso endEpoch)])] w1)))"

text \<open>
  First script of rum-sass.js, lines 180-215. The \<^verbatim>\<open>catch\<close> handler reads \<^verbatim>\<open>err.message\<close>
  while it builds the argument of \<^verbatim>\<open>sendError\<close>: when \<open>err\<close> is \<^verbatim>\<open>null\<close> or
  \<^verbatim>\<open>undefined\<close> that read throws, nothing is sent, and the promise is rejected with the
  TypeError.
\<close>

definition api_fields_sass :: "string \<Rightarrow> string \<Rightarrow> string \<Rightarrow> jsval \<Rightarrow> real \<Rightarrow> jsobj" where
  "api_fields_sass type method endpoint status duration =
     [(''type'', JStr type),
      (''method'', JStr method),
      (''endpoint'', JStr endpoint),
      (''status'', status),
      (''duration'', JNum duration)]"

definition window_fetch_sass :: "config \<Rightarrow> fetch_fn \<Rightarrow> fetch_fn" where
  "window_fetch_sass cfg fetchFn input init0 w =
     (let init = with_rum_headers cfg init0;
          start = perf_now w;
          method = method_or_GET (init_method init)
      in case fetchFn input (Some init) w of
           (Resolved response, w1) \<Rightarrow>
             (let duration = perf_now w1 - start;
                  api = api_fields_sass ''fetch'' method (input_url input)
                          (JNum (real (resp_status response))) duration
              in (Resolved response,
                  if 400 \<le> resp_status response
                  then sendError_sass cfg
                         [(''trigger'', JStr ''api_call_error''), (''api'', JObj api)] w1
                  else sendMetrics_sass cfg
                         [(''trigger'', JStr ''api_call''), (''api'', JObj api)] w1))
         | (Rejected err, w1) \<Rightarrow>
             (let duration = perf_now w1 - start
              in case js_get err ''message'' of
                   None \<Rightarrow> (Rejected TypeError, w1)
                 | Some message \<Rightarrow>
                     (Rejected err,
                      sendError_sass cfg
                        [(''trigger'', JStr ''api_call_exception''),
                         (''api'', JObj
                            (api_fields_sass ''fetch'' method (input_url input) JNull duration
                             @ [(''error'', message)]))] w1)))"

text \<open>
  Second script of rum-sass.js, lines 525-568. No header is added
  (\<^verbatim>\<open>fetchFn.apply(this, arguments)\<close>), every settled call goes to \<^verbatim>\<open>sendMetrics\<close>, and a
  rejection is reported with trigger \<^verbatim>\<open>api_call_error\<close>.
\<close>

definition window_fetch_sass2 :: "config \<Rightarrow> fetch_fn \<Rightarrow> fetch_fn" where
  "window_fetch_sass2 cfg fetchFn input init0 w =
     (let start = perf_now w;
          init = (case init0 of
                    None \<Rightarrow> \<lparr>init_method = None, init_headers = None\<rparr>
                  | Some i \<Rightarrow> i);
          method = method_or_GET (init_method init)
      in case fetchFn input init0 w of
           (Resolved response, w1) \<Rightarrow>
             (let duration = perf_now w1 - start
              in (Resolved response,
                  sendMetrics_sass2 cfg
                    (envelope_head_sass2 cfg w1 @
                     [(''trigger'', JStr ''api_call''),
                      (''api'', JObj
                         (api_fields_sass ''fetch'' method (input_url input)
                            (JNum (real (resp_status response))) duration))]) w1))
         | (Rejected err, w1) \<Rightarrow>
             (let duration = perf_now w1 - start
              in case js_get err ''message'' of
                   None \<Rightarrow> (Rejected TypeError, w1)
                 | Some message \<Rightarrow>
                     (Rejected err,
                      sendMetrics_sass2 cfg
                        (envelope_head_sass2 cfg w1 @
                         [(''trigger'', JStr ''api_call_error''),
                          (''api'', JObj
                             (api_fields_sass ''fetch'' method (input_url input) JNull duration
                              @ [(''error'', message)]))]) w1)))"

section \<open>The XMLHttpRequest shim\<close>

text \<open>
  The object \<^verbatim>\<open>this._reqData\<close> that the patched \<^verbatim>\<open>open\<close> stores on the request. The main
  script fills \<open>startMono\<close> and \<open>startEpoch\<close> later, the scripts of rum-sass.js store
  \<open>start\<close> at once; \<open>None\<close> is a property not set.
\<close>

record reqdata =
  rd_method :: string
  rd_url :: string
  rd_start :: "real option"
  rd_startMono :: "real option"
  rd_startEpoch :: "real option"

text \<open>
  The listener functions the patched \<^verbatim>\<open>open\<close> of each script registers with
  \<^verbatim>\<open>this.addEventListener\<close>, and the event each listens to.
\<close>

datatype xhr_listener =
    ReadyStateChange_main
  | LoadEnd_main
  | ReadyStateChange_sass
  | LoadEnd_sass
  | LoadEnd_sass2

datatype xhr_event = ReadyStateChangeEvent | LoadEndEvent

fun listens_to :: "xhr_listener \<Rightarrow> xhr_event" where
  "listens_to ReadyStateChange_main = ReadyStateChangeEvent"
| "listens_to LoadEnd_main = LoadEndEvent"
| "listens_to ReadyStateChange_sass = ReadyStateChangeEvent"
| "listens_to LoadEnd_sass = LoadEndEvent"
| "listens_to LoadEnd_sass2 = LoadEndEvent"

text \<open>
  A request object: its \<^verbatim>\<open>readyState\<close> and \<^verbatim>\<open>status\<close>, \<^verbatim>\<open>_reqData\<close>, the registered
  listeners in registration order, and the accepted \<^verbatim>\<open>setRequestHeader\<close> calls in call
  order (the browser joins the values given for one name).
\<close>

record xhr =
  readyState :: nat
  xhr_status :: nat
  reqData :: "reqdata option"
  listeners :: "xhr_listener list"
  requestHeaders :: "(string \<times> jsval) list"

text \<open>
  \<^verbatim>\<open>setRequestHeader\<close> inside \<^verbatim>\<open>try { ... } catch {}\<close>: outside the opened state the call
  throws, the exception is caught, and nothing changes.
\<close>

definition setRequestHeader :: "string \<Rightarrow> jsval \<Rightarrow> xhr \<Rightarrow> xhr" where
  "setRequestHeader header v x =
     (if readyState x = 1 then x\<lparr>requestHeaders := requestHeaders x @ [(header, v)]\<rparr> else x)"

definition set_rum_headers :: "config \<Rightarrow> xhr \<Rightarrow> xhr" where
  "set_rum_headers cfg x =
     setRequestHeader ''X-RUM-Endpoint-Id'' (endpoint_val cfg)
       (setRequestHeader ''X-RUM-Session-Id'' (JStr (sessionId cfg)) x)"

text \<open>
  The bodies of the listeners, run with \<^verbatim>\<open>this\<close> the request: main script, lines 292-301
  and 303-328; first script of rum-sass.js, lines 222-231 and 233-249; second script of
  rum-sass.js, lines 504-520. A listener that finds no \<^verbatim>\<open>_reqData\<close> throws and sends nothing.
\<close>

fun run_listener :: "config \<Rightarrow> xhr_listener \<Rightarrow> xhr \<times> world \<Rightarrow> xhr \<times> world" where
  "run_listener cfg ReadyStateChange_main (x, w) =
     (if readyState x = 1
      then (case reqData (set_rum_headers cfg x) of
              None \<Rightarrow> (set_rum_headers cfg x, w)
            | Some rd \<Rightarrow>
                ((set_rum_headers cfg x)
                   \<lparr>reqData := Some (rd\<lparr>rd_startMono := Some (perf_now w),
                                          rd_startEpoch := Some (toEpochMs w (perf_now w))\<rparr>)\<rparr>,
                 w))
      else (x, w))"
| "run_listener cfg LoadEnd_main (x, w) =
     (case reqData x of
        None \<Rightarrow> (x, w)
      | Some rd \<Rightarrow>
          (let endMono = perf_now w;
               endEpoch = toEpochMs w endMono;
               startEpoch =
                 (case rd_startEpoch rd of
                    Some e \<Rightarrow>
                      if e \<noteq> 0 then e
                      else toEpochMs w (case rd_startMono rd of None \<Rightarrow> 0 | Some m \<Rightarrow> m)
                  | None \<Rightarrow> toEpochMs w (case rd_startMono rd of None \<Rightarrow> 0 | Some m \<Rightarrow> m));
               duration =
                 endMono - (case rd_startMono rd of
                              None \<Rightarrow> endMono
                            | Some m \<Rightarrow> if m \<noteq> 0 then m else endMono);
               base = [(''api'', JObj
                          [(''type'', JStr ''xhr''),
                           (''method'', JStr (rd_method rd)),
                           (''endpoint'', JStr (rd_url rd)),
                           (''status'', JNum (real (xhr_status x))),
                           (''duration'', JNum duration),
                           (''start_epoch_ms'', JNum startEpoch),
                           (''end_epoch_ms'', JNum endEpoch),
                           (''start_ts'', JIso startEpoch),
                           (''end_ts'', JIso endEpoch)])]
           in (x,
               if 400 \<le> xhr_status x
               then sendError cfg ((''trigger'', JStr ''api_call_error'') # base) w
               else sendMetrics cfg ((''trigger'', JStr ''api_call'') # base) w)))"
| "run_listener cfg ReadyStateChange_sass (x, w) =
     (if readyState x = 1 then (set_rum_headers cfg x, w) else (x, w))"
| "run_listener cfg LoadEnd_sass (x, w) =
     (case reqData x of
        None \<Rightarrow> (x, w)
      | Some rd \<Rightarrow>
          (case rd_start rd of
             None \<Rightarrow> (x, w)
           | Some start \<Rightarrow>
               (let duration = perf_now w - start;
                    data = [(''api'', JObj
                              (api_fields_sass ''xhr'' (rd_method rd) (rd_url rd)
                                 (JNum (real (xhr_status x))) duration))]
                in (x,
                    if 400 \<le> xhr_status x
                    then sendError_sass cfg ((''trigger'', JStr ''api_call_error'') # data) w
                    else sendMetrics_sass cfg ((''trigger'', JStr ''api_call'') # data) w))))"
| "run_listener cfg LoadEnd_sass2 (x, w) =
     (case reqData x of
        None \<Rightarrow> (x, w)
      | Some rd \<Rightarrow>
          (case rd_start rd of
             None \<Rightarrow> (x, w)
           | Some start \<Rightarrow>
               (let duration = perf_now w - start
                in (x,
                    sendMetrics_sass2 cfg
                      (envelope_head_sass2 cfg w @
                       [(''trigger'', JStr ''api_call''),
                        (''api'', JObj
                           (api_fields_sass ''xhr'' (rd_method rd) (rd_url rd)
                              (JNum (real (xhr_status x))) duration))]) w))))"

text \<open>
  The browser dispatching an event on the request: the registered listeners for that
  event run in registration order.
\<close>

definition dispatch_xhr :: "config \<Rightarrow> xhr_event \<Rightarrow> xhr \<times> world \<Rightarrow> xhr \<times> world" where
  "dispatch_xhr cfg ev st =
     fold (\<lambda>l acc. if listens_to l = ev then run_listener cfg l acc else acc)
       (listeners (fst st)) st"

text \<open>
  The browser's own \<^verbatim>\<open>open\<close>: it empties the request headers and, unless the request is
  already in the opened state, enters it and fires \<^verbatim>\<open>readystatechange\<close>. Later the
  browser ends the request: it sets the status and fires \<^verbatim>\<open>loadend\<close>.
\<close>

type_synonym xhr_open_fn = "string \<Rightarrow> string \<Rightarrow> xhr \<times> world \<Rightarrow> xhr \<times> world"

definition native_open :: "config \<Rightarrow> xhr_open_fn" where
  "native_open cfg method url st =
     (if readyState (fst st) = 1
      then ((fst st)\<lparr>requestHeaders := []\<rparr>, snd st)
      else dispatch_xhr cfg ReadyStateChangeEvent
             ((fst st)\<lparr>readyState := 1, requestHeaders := []\<rparr>, snd st))"

definition browser_loadend :: "config \<Rightarrow> nat \<Rightarrow> xhr \<times> world \<Rightarrow> xhr \<times> world" where
  "browser_loadend cfg status st =
     dispatch_xhr cfg LoadEndEvent ((fst st)\<lparr>readyState := 4, xhr_status := status\<rparr>, snd st)"

definition new_xhr :: xhr where
  "new_xhr = \<lparr>readyState = 0, xhr_status = 0, reqData = None, listeners = [],
              requestHeaders = []\<rparr>"

text \<open>
  The patched \<^verbatim>\<open>XMLHttpRequest.prototype.open\<close>; \<open>open0\<close> is the function found there when
  the script is evaluated. Main script, lines 288-332.
\<close>

definition xhr_open :: "xhr_open_fn \<Rightarrow> xhr_open_fn" where
  "xhr_open open0 method url st =
     open0 method url
       ((fst st)\<lparr>reqData :=
                   Some \<lparr>rd_method = toUpperCase (if method = [] then ''GET'' else method),
                         rd_url = url, rd_start = None, rd_startMono = None,
                         rd_startEpoch = None\<rparr>,
                 listeners := listeners (fst st) @ [ReadyStateChange_main, LoadEnd_main]\<rparr>,
        snd st)"

text \<open>First script of rum-sass.js, lines 218-253.\<close>

definition xhr_open_sass :: "xhr_open_fn \<Rightarrow> xhr_open_fn" where
  "xhr_open_sass open0 method url st =
     open0 method url
       ((fst st)\<lparr>reqData :=
                   Some \<lparr>rd_method = method, rd_url = url, rd_start = Some (perf_now (snd st)),
                         rd_startMono = None, rd_startEpoch = None\<rparr>,
                 listeners := listeners (fst st) @ [ReadyStateChange_sass, LoadEnd_sass]\<rparr>,
        snd st)"

text \<open>Second script of rum-sass.js, lines 501-523.\<close>

definition xhr_open_sass2 :: "xhr_open_fn \<Rightarrow> xhr_open_fn" where
  "xhr_open_sass2 open0 method url st =
     open0 method url
       ((fst st)\<lparr>reqData :=
                   Some \<lparr>rd_method = method, rd_url = url, rd_start = Some (perf_now (snd st)),
                         rd_startMono = None, rd_startEpoch = None\<rparr>,
                 listeners := listeners (fst st) @ [LoadEnd_sass2]\<rparr>,
        snd st)"

text \<open>
  One request from start to end: a new request object is opened with the given
  \<^verbatim>\<open>open\<close> function in browser state \<open>w\<close>, and the browser ends it with the given status
  when the monotonic clock reads \<open>t_end\<close>.
\<close>

definition xhr_call :: "config \<Rightarrow> xhr_open_fn \<Rightarrow> string \<Rightarrow> string \<Rightarrow> nat \<Rightarrow> real \<Rightarrow> world
    \<Rightarrow> xhr \<times> world" where
  "xhr_call cfg open0 method url status t_end w =
     (let opened = open0 method url (new_xhr, w)
      in browser_loadend cfg status (fst opened, (snd opened)\<lparr>perf_now := t_end\<rparr>))"

section \<open>Session end\<close>

text \<open>
  Main script, lines 177-194: one listener per event name, each registered with
  \<^verbatim>\<open>{ once: true }\<close>, so the browser removes it when it has run. The scripts of rum-sass.js
  register no such listener.
\<close>

datatype unload_event = Pagehide | Visibilitychange | Beforeunload

definition session_end_listeners :: "unload_event list" where
  "session_end_listeners = [Pagehide, Visibilitychange, Beforeunload]"

text \<open>
  \<^verbatim>\<open>Number(sessionStorage.getItem('rum_session_start')) || null\<close>: an absent item gives
  \<^verbatim>\<open>Number(null)\<close>, which is 0 and falsy.
\<close>

definition stored_session_start :: "world \<Rightarrow> jsval" where
  "stored_session_start w =
     (case session_start w of None \<Rightarrow> JNull | Some t \<Rightarrow> if t \<noteq> 0 then JNum t else JNull)"

definition session_end_handler :: "config \<Rightarrow> unload_event \<Rightarrow> world \<Rightarrow> world" where
  "session_end_handler cfg evt w =
     (if doc_hidden w \<or> evt \<noteq> Visibilitychange
      then sendMetrics cfg
             [(''trigger'', JStr ''session_end''),
              (''session'', JObj
                 [(''start_epoch_ms'', stored_session_start w),
                  (''end_ts'', JIso (date_now w)),
                  (''end_epoch_ms'', JNum (date_now w))])] w
      else w)"

text \<open>
  The browser firing an event on the window: a listener still registered for it is
  removed and run. The state is the list of listeners still registered and the browser
  state.
\<close>

definition fire :: "config \<Rightarrow> unload_event \<Rightarrow> unload_event list \<times> world
    \<Rightarrow> unload_event list \<times> world" where
  "fire cfg evt st =
     (if evt \<in> set (fst st)
      then (remove1 evt (fst st), session_end_handler cfg evt (snd st))
      else st)"

text \<open>
  A sequence of events, each with the visibility of the document (hidden or not) and
  the wall-clock time when it fires.
\<close>

fun run_unload :: "config \<Rightarrow> (unload_event \<times> bool \<times> real) list
    \<Rightarrow> unload_event list \<times> world \<Rightarrow> unload_event list \<times> world" where
  "run_unload cfg [] st = st"
| "run_unload cfg ((evt, hidden, t) # evs) st =
     run_unload cfg evs
       (fire cfg evt (fst st, (snd st)\<lparr>doc_hidden := hidden, date_now := t\<rparr>))"

text \<open>The session-end envelopes handed over during a sequence that starts after initialisation.\<close>

definition session_ends :: "config \<Rightarrow> (unload_event \<times> bool \<times> real) list \<Rightarrow> world
    \<Rightarrow> delivery list" where
  "session_ends cfg evs w =
     with_trigger ''session_end''
       (emitted w (snd (run_unload cfg evs (session_end_listeners, w))))"

section \<open>Double-precision addition\<close>

text \<open>
  A JavaScript number is an IEEE 754 double. A finite double is represented by the
  rational number it denotes (\<open>-0\<close> and \<open>0\<close> are not told apart: they compare equal
  and JSON prints both as \<open>0\<close>); the other values are the two infinities and NaN.
\<close>

datatype jsnum = Finite rat | PosInfinity | NegInfinity | NaN

text \<open>The integer part of the binary logarithm of a positive rational.\<close>

definition ilog2 :: "rat \<Rightarrow> int" where
  "ilog2 q =
     (let d = bitlen (fst (quotient_of q)) - bitlen (snd (quotient_of q))
      in if 2 powi d \<le> q then d else d - 1)"

text \<open>
  The exponent of the unit in the last place for a value of magnitude \<open>\<bar>q\<bar>\<close>: 53
  significant bits, and the spacing of the subnormal numbers, \<open>2 powi - 1074\<close>, at the
  bottom.
\<close>

definition ulp_exponent :: "rat \<Rightarrow> int" where
  "ulp_exponent q = max (ilog2 \<bar>q\<bar> - 52) (- 1074)"

text \<open>Rounding to the nearest integer, a tie to the even one.\<close>

definition round_half_even :: "rat \<Rightarrow> int" where
  "round_half_even t =
     (let f = \<lfloor>t\<rfloor>; d = t - of_int f
      in if d < 1 / 2 then f
         else if 1 / 2 < d then f + 1
         else if even f then f else f + 1)"

text \<open>
  The double nearest to an exact result (round to nearest, ties to even), an infinity
  when the rounded magnitude reaches \<open>2 powi 1024\<close>, that is, when its binary
  logarithm is at least 1024.
\<close>

definition round_double :: "rat \<Rightarrow> jsnum" where
  "round_double q =
     (if q = 0 then Finite 0
      else (let e = ulp_exponent q;
                r = of_int (round_half_even (q / 2 powi e)) * 2 powi e
            in if r \<noteq> 0 \<and> 1024 \<le> ilog2 \<bar>r\<bar>
               then (if 0 < r then PosInfinity else NegInfinity)
               else Finite r))"

text \<open>\<^verbatim>\<open>x + y\<close> on numbers.\<close>

fun js_add :: "jsnum \<Rightarrow> jsnum \<Rightarrow> jsnum" where
  "js_add (Finite a) (Finite b) = round_double (a + b)"
| "js_add NaN y = NaN"
| "js_add x NaN = NaN"
| "js_add PosInfinity NegInfinity = NaN"
| "js_add NegInfinity PosInfinity = NaN"
| "js_add PosInfinity y = PosInfinity"
| "js_add x PosInfinity = PosInfinity"
| "js_add NegInfinity y = NegInfinity"
| "js_add x NegInfinity = NegInfinity"

text \<open>\<^verbatim>\<open>x <= y\<close> on numbers; every comparison with NaN is false.\<close>

fun js_le :: "jsnum \<Rightarrow> jsnum \<Rightarrow> bool" where
  "js_le NaN y = False"
| "js_le x NaN = False"
| "js_le NegInfinity y = True"
| "js_le x PosInfinity = True"
| "js_le (Finite a) (Finite b) = (a \<le> b)"
| "js_le PosInfinity y = False"
| "js_le x NegInfinity = False"

section \<open>Observers\<close>

text \<open>
  The module variables the paint and layout-shift observers write (main script, lines
  55 and 100); \<open>None\<close> is \<^verbatim>\<open>null\<close>.
\<close>

record vitals =
  fpValue :: "real option"
  fcpValue :: "real option"
  clsValue :: jsnum

definition initial_vitals :: vitals where
  "initial_vitals = \<lparr>fpValue = None, fcpValue = None, clsValue = Finite 0\<rparr>"

record paint_entry =
  pe_name :: string
  pe_startTime :: real

record layout_shift =
  ls_value :: jsnum
  hadRecentInput :: bool

text \<open>
  The callback of \<^verbatim>\<open>paintObserver\<close> on one batch of entries (main script, lines 58-63;
  rum-sass.js, lines 48-53 and 335-340).
\<close>

definition paint_step :: "paint_entry \<Rightarrow> vitals \<Rightarrow> vitals" where
  "paint_step e v =
     (let v1 = (if pe_name e = ''first-paint'' then v\<lparr>fpValue := Some (pe_startTime e)\<rparr> else v)
      in if pe_name e = ''first-contentful-paint''
         then v1\<lparr>fcpValue := Some (pe_startTime e)\<rparr> else v1)"

definition paintObserver :: "paint_entry list \<Rightarrow> vitals \<Rightarrow> vitals" where
  "paintObserver entries v = fold paint_step entries v"

text \<open>
  The callback of \<^verbatim>\<open>clsObserver\<close> on one batch of entries (main script, lines 102-106;
  rum-sass.js, lines 91-95 and 378-382).
\<close>

definition cls_step :: "layout_shift \<Rightarrow> vitals \<Rightarrow> vitals" where
  "cls_step entry v =
     (if \<not> hadRecentInput entry then v\<lparr>clsValue := js_add (clsValue v) (ls_value entry)\<rparr>
      else v)"

definition clsObserver :: "layout_shift list \<Rightarrow> vitals \<Rightarrow> vitals" where
  "clsObserver entries v = fold cls_step entries v"

text \<open>The state after the browser has called a callback once per batch, in order.\<close>

definition after_paint_batches :: "paint_entry list list \<Rightarrow> vitals" where
  "after_paint_batches batches = fold paintObserver batches initial_vitals"

definition after_cls_batches :: "layout_shift list list \<Rightarrow> vitals" where
  "after_cls_batches batches = fold clsObserver batches initial_vitals"

section \<open>Resource metrics\<close>

text \<open>
  The fields of a resource timing entry that \<^verbatim>\<open>collectResourceMetrics\<close> reads;
  \<open>transferSize\<close> is \<open>None\<close> where the browser does not supply it (\<^verbatim>\<open>undefined\<close>). In the
  result \<open>rm_transferSize\<close> is \<open>None\<close> for \<^verbatim>\<open>null\<close>.
\<close>

record resource_entry =
  re_name :: string
  initiatorType :: string
  re_duration :: real
  transferSize :: "nat option"
  re_startTime :: real
  responseEnd :: real

record resource_metric =
  rm_name :: string
  rm_type :: string
  rm_duration :: real
  rm_transferSize :: "nat option"
  rm_startTime :: real
  rm_responseEnd :: real

text \<open>\<^verbatim>\<open>r.transferSize || null\<close>\<close>

definition transferSize_or_null :: "nat option \<Rightarrow> nat option" where
  "transferSize_or_null t = (case t of None \<Rightarrow> None | Some n \<Rightarrow> if n \<noteq> 0 then Some n else None)"

text \<open>
  Main script, lines 110-122; rum-sass.js, lines 100-112 and 387-399. The argument is
  the list \<^verbatim>\<open>performance.getEntriesByType('resource')\<close>.
\<close>

definition collectResourceMetrics :: "resource_entry list \<Rightarrow> resource_metric list" where
  "collectResourceMetrics resources =
     map (\<lambda>r. \<lparr>rm_name = re_name r,
                rm_type = initiatorType r,
                rm_duration = re_duration r,
                rm_transferSize = transferSize_or_null (transferSize r),
                rm_startTime = re_startTime r,
                rm_responseEnd = responseEnd r\<rparr>)
       (filter (\<lambda>r. initiatorType r \<noteq> ''beacon'') resources)"

text \<open>
  The resource timing entry the browser records for a delivery of the agent: its name
  is the URL requested and its initiator type is \<^verbatim>\<open>beacon\<close> for
  \<^verbatim>\<open>navigator.sendBeacon\<close> and \<^verbatim>\<open>fetch\<close> for \<^verbatim>\<open>fetch\<close> (Resource Timing, as browsers
  implement it). The times and the size are those of the transfer.
\<close>

definition entry_of_delivery :: "real \<Rightarrow> real \<Rightarrow> nat option \<Rightarrow> delivery \<Rightarrow> resource_entry" where
  "entry_of_delivery started ended bytes d =
     \<lparr>re_name = delivery_url d,
      initiatorType = (if is_beacon d then ''beacon'' else ''fetch''),
      re_duration = ended - started,
      transferSize = bytes,
      re_startTime = started,
      responseEnd = ended\<rparr>"

text \<open>
  For stating what the paint observer holds: the \<^verbatim>\<open>startTime\<close> of the last entry with
  the given name in a list of entries, if there is one.
\<close>

definition last_startTime :: "string \<Rightarrow> paint_entry list \<Rightarrow> real option" where
  "last_startTime n es =
     (let named = filter (\<lambda>e. pe_name e = n) es
      in if named = [] then None else Some (pe_startTime (last named)))"

section \<open>Notions for the layout-shift sum\<close>

text \<open>
  The non-negative values a double can take, as rationals: an integer of at most 53
  bits times a power of two not below the subnormal spacing. And the values the sum can
  have after adding magnitudes that are not negative: such a value or infinity.
\<close>

definition on_grid :: "rat \<Rightarrow> bool" where
  "on_grid x = (\<exists>n e. x = of_int n * 2 powi e \<and> 0 \<le> n \<and> n \<le> 2 ^ 53 \<and> - 1074 \<le> e)"

definition cls_ok :: "jsnum \<Rightarrow> bool" where
  "cls_ok v = (v = PosInfinity \<or> (\<exists>r. v = Finite r \<and> on_grid r))"

text \<open>The doubles nearest to 0.1 and 0.2.\<close>

definition double_0_1 :: jsnum where
  "double_0_1 = Finite (3602879701896397 / 36028797018963968)"

definition double_0_2 :: jsnum where
  "double_0_2 = Finite (3602879701896397 / 18014398509481984)"

section \<open>Notions for the session-end property\<close>

text \<open>
  Whether an event name occurs in a sequence; whether the first \<^verbatim>\<open>visibilitychange\<close> of a
  sequence fires while the document is hidden; and the number of session-end envelopes
  expected from a sequence when the listeners \<open>ls\<close> are still registered.
\<close>

definition first_visibilitychange_hidden :: "(unload_event \<times> bool \<times> real) list \<Rightarrow> bool" where
  "first_visibilitychange_hidden evs =
     (case find (\<lambda>x. fst x = Visibilitychange) evs of
        None \<Rightarrow> False
      | Some x \<Rightarrow> fst (snd x))"

definition fired :: "unload_event \<Rightarrow> (unload_event \<times> bool \<times> real) list \<Rightarrow> bool" where
  "fired evt evs = (evt \<in> fst ` set evs)"

definition ends_expected :: "unload_event list \<Rightarrow> (unload_event \<times> bool \<times> real) list \<Rightarrow> nat" where
  "ends_expected ls evs =
     (if Pagehide \<in> set ls \<and> fired Pagehide evs then 1 else 0)
     + (if Beforeunload \<in> set ls \<and> fired Beforeunload evs then 1 else 0)
     + (if Visibilitychange \<in> set ls \<and> first_visibilitychange_hidden evs then 1 else 0)"

section \<open>Notions for the network records\<close>

text \<open>A field of the \<^verbatim>\<open>api\<close> object of a delivered payload.\<close>

definition api_field :: "delivery \<Rightarrow> string \<Rightarrow> jsval option" where
  "api_field d k =
     (case map_of (delivery_payload d) ''api'' of
        Some (JObj api) \<Rightarrow> map_of api k
      | _ \<Rightarrow> None)"

text \<open>
  Example fetch functions: the browser's \<^verbatim>\<open>fetch\<close> answering every call after 30 ms
  with the given status, or rejecting every call after 30 ms with the given value.
\<close>

definition responding_fetch :: "nat \<Rightarrow> fetch_fn" where
  "responding_fetch status input init w =
     (Resolved \<lparr>resp_status = status, resp_body = ''{}''\<rparr>, w\<lparr>perf_now := perf_now w + 30\<rparr>)"

definition rejecting_fetch :: "jsval \<Rightarrow> fetch_fn" where
  "rejecting_fetch err input init w = (Rejected err, w\<lparr>perf_now := perf_now w + 30\<rparr>)"



section \<open>Values used in the examples\<close>

definition example_config :: config where
  "example_config =
     \<lparr>endpointId = Some ''ep-7'',
      apiBaseUrl = ''http://localhost:8000'',
      errorsBaseUrl = ''http://localhost:8000'',
      sessionId = ''sess-1''\<rparr>"

definition example_world :: world where
  "example_world =
     \<lparr>perf_now = 100, timeOrigin = 1000, date_now = 1100, has_sendBeacon = True,
      href = ''http://shop.test/'', doc_hidden = False, session_start = Some 1000,
      sent = []\<rparr>"

definition example_error_event :: error_event where
  "example_error_event =
     \<lparr>ev_message = JStr ''boom'', ev_filename = JStr ''app.js'', ev_lineno = JNum 3,
      ev_colno = JNum 9, ev_error = JNull\<rparr>"

section \<open>Properties of delivery\<close>

lemma map_of_spread: "map_of (spread a b) = map_of a ++ map_of (rev b)"
proof -
  have "map_of (fold (\<lambda>(k, v) acc. AList.update k v acc) b a) = map_of a ++ map_of (rev b)"
    for a :: jsobj
  proof (induction b arbitrary: a)
    case Nil
    show ?case by simp
  next
    case (Cons p b)
    obtain k v where p: "p = (k, v)" by (cases p)
    have "map_of (rev b @ [(k, v)]) = [k \<mapsto> v] ++ map_of (rev b)"
      by (simp only: map_of_append) simp
    moreover have "(map_of a)(k \<mapsto> v) = map_of a ++ [k \<mapsto> v]"
      by simp
    ultimately show ?case
      unfolding p by (simp add: Cons.IH update_conv' del: map_add_upd)
  qed
  then show ?thesis by (simp add: spread_def)
qed

lemma spread_session_id:
  "map_of (spread data (rumIds cfg)) ''session_id'' = Some (JStr (sessionId cfg))"
  by (simp add: map_of_spread rumIds_def map_add_def)

lemma spread_endpoint_id:
  "map_of (spread data (rumIds cfg)) ''endpoint_id'' = Some (endpoint_val cfg)"
  by (simp add: map_of_spread rumIds_def map_add_def)

lemma emitted_post:
  "emitted w (post url payload useBeacon w) =
     [if useBeacon \<and> has_sendBeacon w then Beacon url payload else Request url payload]"
  by (simp add: emitted_def post_def)

lemma emitted_sendMetrics:
  "emitted w (sendMetrics cfg data w) =
     [if has_sendBeacon w
      then Beacon (apiBaseUrl cfg @ ''/rum/page-metrics'') (spread data (rumIds cfg))
      else Request (apiBaseUrl cfg @ ''/rum/page-metrics'') (spread data (rumIds cfg))]"
  by (simp add: sendMetrics_def emitted_post)

lemma emitted_sendError:
  "emitted w (sendError cfg data w) =
     [Request (errorsBaseUrl cfg @ ''/rum/errors'') (spread data (rumIds cfg))]"
  by (simp add: sendError_def emitted_post)

lemma emitted_sendMetrics_sass:
  "emitted w (sendMetrics_sass cfg data w) =
     [if has_sendBeacon w
      then Beacon (apiBaseUrl cfg @ ''/rum/page-metrics'') (spread data (rumIds cfg))
      else Request (apiBaseUrl cfg @ ''/rum/page-metrics'') (spread data (rumIds cfg))]"
  by (simp add: sendMetrics_sass_def emitted_def)

lemma emitted_sendError_sass:
  "emitted w (sendError_sass cfg data w) =
     [Request (errorsBaseUrl cfg @ ''/rum/errors'') (spread data (rumIds cfg))]"
  by (simp add: sendError_sass_def emitted_def)

lemma emitted_sendMetrics_sass2:
  "emitted w (sendMetrics_sass2 cfg data w) =
     [if has_sendBeacon w
      then Beacon ''http://localhost:8000/rum/page-metrics'' (spread data (rumIds cfg))
      else Request ''http://localhost:8000/rum/page-metrics'' (spread data (rumIds cfg))]"
  by (simp add: sendMetrics_sass2_def emitted_def rumIds_def)

section \<open>Identity fields of every payload\<close>

text \<open>
  Claim C9. Each of the send functions of the three scripts hands over exactly one
  delivery, and its payload has \<open>session_id\<close> and \<open>endpoint_id\<close> equal to the identity
  read at initialisation, whatever keys the event data has: the identity is spread
  after the data, so a \<open>session_id\<close> or \<open>endpoint_id\<close> key of the data is overwritten.
\<close>

theorem sent_payload_carries_identity:
  assumes "send \<in> {sendMetrics, sendError, sendMetrics_sass, sendError_sass, sendMetrics_sass2}"
  shows "\<exists>d. emitted w (send cfg data w) = [d]
           \<and> map_of (delivery_payload d) ''session_id'' = Some (JStr (sessionId cfg))
           \<and> map_of (delivery_payload d) ''endpoint_id'' = Some (endpoint_val cfg)"
proof -
  from assms consider "send = sendMetrics" | "send = sendError" | "send = sendMetrics_sass"
    | "send = sendError_sass" | "send = sendMetrics_sass2"
    by auto
  then show ?thesis
  proof cases
    case 1
    then show ?thesis
      by (simp add: emitted_sendMetrics spread_session_id spread_endpoint_id)
  next
    case 2
    then show ?thesis
      by (simp add: emitted_sendError spread_session_id spread_endpoint_id)
  next
    case 3
    then show ?thesis
      by (simp add: emitted_sendMetrics_sass spread_session_id spread_endpoint_id)
  next
    case 4
    then show ?thesis
      by (simp add: emitted_sendError_sass spread_session_id spread_endpoint_id)
  next
    case 5
    then show ?thesis
      by (simp add: emitted_sendMetrics_sass2 spread_session_id spread_endpoint_id)
  qed
qed

text \<open>
  An event object that brings its own \<open>session_id\<close> and \<open>endpoint_id\<close> is delivered with
  the stored identity.
\<close>

theorem sent_payload_carries_identity_witness:
  "\<exists>d. emitted example_world
          (sendError example_config
             [(''session_id'', JStr ''spoofed''), (''trigger'', JStr ''js_error''),
              (''endpoint_id'', JNull)] example_world) = [d]
       \<and> map_of (delivery_payload d) ''session_id'' = Some (JStr ''sess-1'')
       \<and> map_of (delivery_payload d) ''endpoint_id'' = Some (JStr ''ep-7'')"
  using sent_payload_carries_identity [of sendError example_world example_config
      "[(''session_id'', JStr ''spoofed''), (''trigger'', JStr ''js_error''),
        (''endpoint_id'', JNull)]"]
  by (simp add: example_config_def endpoint_val_def)

section \<open>Cumulative layout shift\<close>

lemma bitlen_powi_bounds:
  fixes a :: int
  assumes "0 < a"
  shows "(2::rat) powi (bitlen a - 1) \<le> of_int a" and "of_int a < (2::rat) powi (bitlen a)"
proof -
  have b: "2 ^ nat (bitlen a - 1) \<le> a" "a < 2 ^ nat (bitlen a)"
    using bitlen_bounds [OF assms] by simp_all
  have pos: "1 \<le> bitlen a" using assms by (simp add: bitlen_alt_def)
  have "(of_int (2 ^ nat (bitlen a - 1)) :: rat) \<le> of_int a"
    using b(1) by (simp only: of_int_le_iff)
  then show "(2::rat) powi (bitlen a - 1) \<le> of_int a"
    using pos by (simp add: power_int_def)
  have "(of_int a :: rat) < of_int (2 ^ nat (bitlen a))"
    using b(2) by (simp only: of_int_less_iff)
  then show "of_int a < (2::rat) powi (bitlen a)"
    using pos by (simp add: power_int_def)
qed

lemma ilog2_bounds:
  assumes "0 < q"
  shows "2 powi (ilog2 q) \<le> q" and "q < 2 powi (ilog2 q + 1)"
proof -
  obtain a b where ab: "quotient_of q = (a, b)" by (cases "quotient_of q")
  then have bpos: "0 < b" and q: "q = of_int a / of_int b"
    by (simp_all add: quotient_of_denom_pos quotient_of_div)
  have apos: "0 < a" using assms bpos q by (simp add: zero_less_divide_iff)
  let ?d = "bitlen a - bitlen b"
  have up: "q < 2 powi (?d + 1)"
  proof -
    have "q < 2 powi (bitlen a) / of_int b"
      using bitlen_powi_bounds(2) [OF apos] bpos by (simp add: q divide_strict_right_mono)
    also have "\<dots> \<le> 2 powi (bitlen a) / 2 powi (bitlen b - 1)"
      using bitlen_powi_bounds(1) [OF bpos] by (intro divide_left_mono) (simp_all add: bpos)
    also have "\<dots> = 2 powi (?d + 1)"
      using power_int_diff [of "2::rat" "bitlen a" "bitlen b - 1"]
      by (simp add: algebra_simps)
    finally show ?thesis .
  qed
  have lo: "2 powi (?d - 1) \<le> q"
  proof -
    have "2 powi (?d - 1) = 2 powi (bitlen a - 1) / (2::rat) powi (bitlen b)"
      using power_int_diff [of "2::rat" "bitlen a - 1" "bitlen b"]
      by (simp add: algebra_simps)
    also have "\<dots> \<le> of_int a / 2 powi (bitlen b)"
      using bitlen_powi_bounds(1) [OF apos] by (simp add: divide_right_mono)
    also have "\<dots> \<le> of_int a / of_int b"
      using bitlen_powi_bounds(2) [OF bpos] apos bpos
      by (intro divide_left_mono) simp_all
    finally show ?thesis by (simp add: q)
  qed
  show "2 powi (ilog2 q) \<le> q"
    using lo by (simp add: ilog2_def ab Let_def)
  show "q < 2 powi (ilog2 q + 1)"
    using up by (auto simp: ilog2_def ab Let_def not_le)
qed

lemma round_half_even_ge: "of_int n \<le> t \<Longrightarrow> n \<le> round_half_even t"
proof -
  assume "of_int n \<le> t"
  then have "n \<le> \<lfloor>t\<rfloor>" by (simp add: le_floor_iff)
  moreover have "\<lfloor>t\<rfloor> \<le> round_half_even t"
    by (simp add: round_half_even_def Let_def)
  ultimately show ?thesis by simp
qed

lemma round_half_even_le: "t \<le> of_int n \<Longrightarrow> round_half_even t \<le> n"
proof (cases "t = of_int n")
  case True
  then show ?thesis by (simp add: round_half_even_def Let_def)
next
  case False
  assume "t \<le> of_int n"
  with False have "t < of_int n" by simp
  then have "\<lfloor>t\<rfloor> < n" by (simp add: floor_less_iff)
  moreover have "round_half_even t \<le> \<lfloor>t\<rfloor> + 1"
    by (simp add: round_half_even_def Let_def)
  ultimately show ?thesis by simp
qed

lemma ulp_exponent_scaled:
  assumes "0 < q"
  shows "0 < q / 2 powi (ulp_exponent q)" and "q / 2 powi (ulp_exponent q) < 2 ^ 53"
proof -
  let ?e = "ulp_exponent q"
  have p: "(0::rat) < 2 powi k" for k by simp
  show "0 < q / 2 powi ?e" using assms p by simp
  have ge: "ilog2 q - 52 \<le> ?e" using assms by (simp add: ulp_exponent_def)
  have "q < 2 powi (ilog2 q + 1)" using ilog2_bounds(2) [OF assms] .
  also have "\<dots> = 2 powi (ilog2 q - 52) * 2 ^ 53"
    using power_int_add [of "2::rat" "ilog2 q - 52" 53] by (simp add: add.commute)
  also have "\<dots> \<le> 2 powi ?e * 2 ^ 53"
    using ge by (intro mult_right_mono power_int_increasing) simp_all
  finally have "q < 2 powi ?e * 2 ^ 53" .
  then show "q / 2 powi ?e < 2 ^ 53"
    using p [of ?e] by (simp add: divide_less_eq mult.commute)
qed

lemma round_double_pos:
  assumes "0 < q"
  shows "round_double q = PosInfinity \<or> (\<exists>r. round_double q = Finite r \<and> on_grid r)"
proof -
  let ?e = "ulp_exponent q"
  let ?m = "round_half_even (q / 2 powi ?e)"
  have "of_int 0 \<le> q / 2 powi ?e" using ulp_exponent_scaled(1) [OF assms] by simp
  then have m0: "0 \<le> ?m" by (rule round_half_even_ge)
  have "q / 2 powi ?e \<le> of_int (2 ^ 53)" using ulp_exponent_scaled(2) [OF assms] by simp
  then have m1: "?m \<le> 2 ^ 53" by (rule round_half_even_le)
  have e: "- 1074 \<le> ?e" by (simp add: ulp_exponent_def)
  have grid: "on_grid (of_int ?m * 2 powi ?e)"
    unfolding on_grid_def using m0 m1 e by blast
  have "(0::rat) \<le> of_int ?m * 2 powi ?e" using m0 by simp
  then show ?thesis
    using assms grid by (auto simp: round_double_def Let_def)
qed

lemma round_double_ge_grid:
  assumes "on_grid x" and "x \<le> q" and "0 < q"
  shows "js_le (Finite x) (round_double q)"
proof -
  let ?e = "ulp_exponent q"
  let ?m = "round_half_even (q / 2 powi ?e)"
  let ?r = "of_int ?m * (2::rat) powi ?e"
  obtain n ex where x: "x = of_int n * 2 powi ex" and n: "0 \<le> n" "n \<le> 2 ^ 53"
    and ex: "- 1074 \<le> ex"
    using assms(1) unfolding on_grid_def by blast
  have p: "(0::rat) < 2 powi k" for k by simp
  have xr: "x \<le> ?r"
  proof (cases "?e \<le> ex")
    case True
    have "x / 2 powi ?e = of_int n * 2 powi (ex - ?e)"
      using power_int_diff [of "2::rat" ex ?e] by (simp add: x)
    also have "\<dots> = of_int (n * 2 ^ nat (ex - ?e))"
      using True by (simp add: power_int_def)
    finally have "of_int (n * 2 ^ nat (ex - ?e)) = x / 2 powi ?e" by simp
    also have "\<dots> \<le> q / 2 powi ?e"
      using assms(2) p [of ?e] by (simp add: divide_right_mono)
    finally have "n * 2 ^ nat (ex - ?e) \<le> ?m" by (rule round_half_even_ge)
    then have "(of_int (n * 2 ^ nat (ex - ?e)) :: rat) \<le> of_int ?m" by (simp only: of_int_le_iff)
    then have "x / 2 powi ?e \<le> of_int ?m"
      using \<open>of_int (n * 2 ^ nat (ex - ?e)) = x / 2 powi ?e\<close> by simp
    then show ?thesis using p [of ?e] by (simp add: divide_le_eq)
  next
    case False
    then have lt: "ex < ?e" by simp
    with ex have e: "?e = ilog2 q - 52"
      using assms(3) by (simp add: ulp_exponent_def)
    have "2 powi (?e + 52) \<le> q" using ilog2_bounds(1) [OF assms(3)] e by simp
    moreover have "(2::rat) powi (?e + 52) = 2 powi ?e * 2 ^ 52"
      using power_int_add [of "2::rat" ?e 52] by simp
    ultimately have "of_int (2 ^ 52) \<le> q / 2 powi ?e"
      using p [of ?e] by (simp add: le_divide_eq mult.commute)
    then have "2 ^ 52 \<le> ?m" by (rule round_half_even_ge)
    then have "(of_int (2 ^ 52) :: rat) \<le> of_int ?m" by (simp only: of_int_le_iff)
    then have "2 ^ 52 * 2 powi ?e \<le> ?r"
      using p [of ?e] by (simp add: mult_right_mono)
    moreover have "x \<le> 2 ^ 53 * 2 powi ex"
    proof -
      have "(of_int n :: rat) \<le> of_int (2 ^ 53)" using n(2) by (simp only: of_int_le_iff)
      then show ?thesis using p [of ex] by (simp add: x mult_right_mono)
    qed
    moreover have "(2::rat) ^ 53 * 2 powi ex \<le> 2 ^ 52 * 2 powi ?e"
    proof -
      have "(2::rat) ^ 53 * 2 powi ex = 2 powi (ex + 53)"
        using power_int_add [of "2::rat" ex 53] by simp
      also have "\<dots> \<le> 2 powi (?e + 52)"
        using lt by (intro power_int_increasing) simp_all
      also have "\<dots> = 2 ^ 52 * 2 powi ?e"
        using power_int_add [of "2::rat" ?e 52] by simp
      finally show ?thesis .
    qed
    ultimately show ?thesis by linarith
  qed
  have "0 \<le> x" using n(1) x by simp
  with xr have "(0::rat) \<le> ?r" by linarith
  then show ?thesis
    using assms(3) xr by (auto simp: round_double_def Let_def)
qed

lemma js_le_trans: "js_le a b \<Longrightarrow> js_le b c \<Longrightarrow> js_le a c"
  by (cases a; cases b; cases c) simp_all

lemma cls_ok_zero: "cls_ok (Finite 0)"
proof -
  have "on_grid 0" unfolding on_grid_def by (intro exI [of _ 0]) simp
  then show ?thesis by (simp add: cls_ok_def)
qed

lemma cls_ok_js_le_refl: "cls_ok x \<Longrightarrow> js_le x x"
  by (auto simp: cls_ok_def)

lemma js_add_nonneg_step:
  assumes "cls_ok x" and "js_le (Finite 0) y"
  shows "cls_ok (js_add x y)" and "js_le x (js_add x y)"
proof -
  have "cls_ok (js_add x y) \<and> js_le x (js_add x y)"
  proof (cases y)
    case (Finite v)
    with assms(2) have v: "0 \<le> v" by simp
    from assms(1) consider "x = PosInfinity" | r where "x = Finite r" "on_grid r"
      unfolding cls_ok_def by blast
    then show ?thesis
    proof cases
      case 1
      then show ?thesis by (simp add: Finite cls_ok_def)
    next
      case 2
      from 2(2) have r0: "0 \<le> r" unfolding on_grid_def by auto
      show ?thesis
      proof (cases "r + v = 0")
        case True
        with r0 v have "r = 0" by linarith
        with True cls_ok_zero show ?thesis
          by (simp add: 2(1) Finite round_double_def)
      next
        case False
        with r0 v have pos: "0 < r + v" by linarith
        have "r \<le> r + v" using v by simp
        then have "js_le (Finite r) (round_double (r + v))"
          using round_double_ge_grid [OF 2(2) _ pos] by simp
        moreover have "cls_ok (round_double (r + v))"
          using round_double_pos [OF pos] by (simp add: cls_ok_def)
        ultimately show ?thesis by (simp add: 2(1) Finite)
      qed
    qed
  next
    case PosInfinity
    with assms(1) show ?thesis by (auto simp: cls_ok_def)
  next
    case NegInfinity
    with assms(2) show ?thesis by simp
  next
    case NaN
    with assms(2) show ?thesis by simp
  qed
  then show "cls_ok (js_add x y)" and "js_le x (js_add x y)" by simp_all
qed

lemma foldl_js_add_nonneg:
  assumes "\<forall>y\<in>set ys. js_le (Finite 0) y" and "cls_ok x"
  shows "cls_ok (foldl js_add x ys) \<and> js_le x (foldl js_add x ys)"
  using assms
proof (induction ys arbitrary: x)
  case Nil
  then show ?case by (simp add: cls_ok_js_le_refl)
next
  case (Cons y ys)
  then have y: "js_le (Finite 0) y" and rest: "\<forall>z\<in>set ys. js_le (Finite 0) z" by simp_all
  have ok: "cls_ok (js_add x y)" and le: "js_le x (js_add x y)"
    using js_add_nonneg_step [OF Cons.prems(2) y] by simp_all
  from Cons.IH [OF rest ok] le show ?case
    by (auto intro: js_le_trans)
qed

lemma cls_fold:
  "fold cls_step es v =
     v\<lparr>clsValue :=
         foldl js_add (clsValue v) (map ls_value (filter (\<lambda>e. \<not> hadRecentInput e) es))\<rparr>"
  by (induction es arbitrary: v) (simp_all add: cls_step_def)

lemma cls_batches_fold:
  "fold clsObserver batches v =
     v\<lparr>clsValue :=
         foldl js_add (clsValue v)
           (map ls_value (filter (\<lambda>e. \<not> hadRecentInput e) (concat batches)))\<rparr>"
  by (induction batches arbitrary: v) (simp_all add: clsObserver_def cls_fold)

lemma clsValue_after_cls_batches:
  "clsValue (after_cls_batches batches) =
     foldl js_add (Finite 0)
       (map ls_value (filter (\<lambda>e. \<not> hadRecentInput e) (concat batches)))"
  by (simp add: after_cls_batches_def cls_batches_fold initial_vitals_def)

lemma js_add_0_1_0_2:
  "js_add (js_add (Finite 0) double_0_1) double_0_2
     = Finite (1351079888211149 / 4503599627370496)"
  by code_simp

lemma round_double_quarter_eighth:
  "round_double (1 / 4) = Finite (1 / 4)"
  "round_double (3 / 8) = Finite (3 / 8)"
  by code_simp+

text \<open>
  Claim C4, as amended. After any sequence of layout-shift batches \<open>clsValue\<close> is the sum
  of the values of the entries not flagged \<open>hadRecentInput\<close>, added from 0 in arrival
  order with the addition of doubles (each addition rounded to the nearest double);
  flagged entries contribute nothing (removing them from every batch leaves the result
  unchanged); each callback adds the values of its unflagged entries onto the previous
  value and never replaces it; and when no magnitude observed is negative or NaN, the
  value does not decrease.
\<close>

theorem cls_is_left_to_right_double_sum:
  "clsValue (after_cls_batches batches) =
     foldl js_add (Finite 0)
       (map ls_value (filter (\<lambda>e. \<not> hadRecentInput e) (concat batches)))
   \<and> after_cls_batches (map (filter (\<lambda>e. \<not> hadRecentInput e)) batches) =
       after_cls_batches batches
   \<and> clsValue (after_cls_batches (batches @ [b])) =
       foldl js_add (clsValue (after_cls_batches batches))
         (map ls_value (filter (\<lambda>e. \<not> hadRecentInput e) b))
   \<and> ((\<forall>e\<in>set (concat batches) \<union> set b.
          \<not> hadRecentInput e \<longrightarrow> js_le (Finite 0) (ls_value e)) \<longrightarrow>
        js_le (clsValue (after_cls_batches batches))
          (clsValue (after_cls_batches (batches @ [b]))))"
proof -
  let ?unflagged = "\<lambda>e. \<not> hadRecentInput e"
  have filt: "concat (map (filter ?unflagged) bs) = filter ?unflagged (concat bs)"
    for bs :: "layout_shift list list"
    by (induction bs) simp_all
  have 1: "clsValue (after_cls_batches batches) =
     foldl js_add (Finite 0) (map ls_value (filter ?unflagged (concat batches)))"
    by (rule clsValue_after_cls_batches)
  have 2: "after_cls_batches (map (filter ?unflagged) batches) = after_cls_batches batches"
    by (simp add: after_cls_batches_def cls_batches_fold filt)
  have 3: "clsValue (after_cls_batches (batches @ [b])) =
       foldl js_add (clsValue (after_cls_batches batches))
         (map ls_value (filter ?unflagged b))"
    by (simp add: clsValue_after_cls_batches)
  have 4: "js_le (clsValue (after_cls_batches batches))
          (clsValue (after_cls_batches (batches @ [b])))"
    if nonneg: "\<forall>e\<in>set (concat batches) \<union> set b. ?unflagged e \<longrightarrow> js_le (Finite 0) (ls_value e)"
  proof -
    have "\<forall>y\<in>set (map ls_value (filter ?unflagged (concat batches))). js_le (Finite 0) y"
      using nonneg by auto
    then have ok: "cls_ok (clsValue (after_cls_batches batches))"
      using foldl_js_add_nonneg [OF _ cls_ok_zero] by (simp only: 1)
    have "\<forall>y\<in>set (map ls_value (filter ?unflagged b)). js_le (Finite 0) y"
      using nonneg by auto
    then show ?thesis
      using foldl_js_add_nonneg [OF _ ok] by (simp only: 3)
  qed
  from 1 2 3 4 show ?thesis by blast
qed

text \<open>
  Two batches, three entries, of which the flagged one is not counted: the sum is 3/8,
  and it did not decrease with the second batch.
\<close>

theorem cls_is_left_to_right_double_sum_witness:
  "clsValue (after_cls_batches
      [[\<lparr>ls_value = Finite (1 / 4), hadRecentInput = False\<rparr>,
        \<lparr>ls_value = Finite (1 / 2), hadRecentInput = True\<rparr>],
       [\<lparr>ls_value = Finite (1 / 8), hadRecentInput = False\<rparr>]]) = Finite (3 / 8)
   \<and> js_le
       (clsValue (after_cls_batches
          [[\<lparr>ls_value = Finite (1 / 4), hadRecentInput = False\<rparr>,
            \<lparr>ls_value = Finite (1 / 2), hadRecentInput = True\<rparr>]]))
       (clsValue (after_cls_batches
          [[\<lparr>ls_value = Finite (1 / 4), hadRecentInput = False\<rparr>,
            \<lparr>ls_value = Finite (1 / 2), hadRecentInput = True\<rparr>],
           [\<lparr>ls_value = Finite (1 / 8), hadRecentInput = False\<rparr>]]))"
  using cls_is_left_to_right_double_sum
    [of "[[\<lparr>ls_value = Finite (1 / 4), hadRecentInput = False\<rparr>,
           \<lparr>ls_value = Finite (1 / 2), hadRecentInput = True\<rparr>]]"
        "[\<lparr>ls_value = Finite (1 / 8), hadRecentInput = False\<rparr>]"]
  by (simp add: round_double_quarter_eighth)

text \<open>
  Claim C4 as stated fails: for the magnitudes 0.1 and 0.2 the value is the double
  0.30000000000000004, which is not their exact sum.
\<close>

theorem cls_not_exact_sum_counterexample:
  "clsValue (after_cls_batches
      [[\<lparr>ls_value = double_0_1, hadRecentInput = False\<rparr>,
        \<lparr>ls_value = double_0_2, hadRecentInput = False\<rparr>]])
     = Finite (1351079888211149 / 4503599627370496)
   \<and> (1351079888211149 / 4503599627370496 :: rat)
     \<noteq> 3602879701896397 / 36028797018963968 + 3602879701896397 / 18014398509481984"
  by (simp add: clsValue_after_cls_batches js_add_0_1_0_2)

text \<open>
  The condition on the magnitudes is needed: the callback adds whatever value an entry
  has, so a negative value lowers the sum.
\<close>

lemma negative_value_lowers_cls:
  "clsValue (after_cls_batches [[\<lparr>ls_value = Finite (1 / 4), hadRecentInput = False\<rparr>]])
     = Finite (1 / 4)
   \<and> clsValue (after_cls_batches
        [[\<lparr>ls_value = Finite (1 / 4), hadRecentInput = False\<rparr>],
         [\<lparr>ls_value = Finite (- (1 / 8)), hadRecentInput = False\<rparr>]]) = Finite (1 / 8)"
proof -
  have "round_double (1 / 8) = Finite (1 / 8)" by code_simp
  then show ?thesis
    by (simp add: clsValue_after_cls_batches round_double_quarter_eighth)
qed

section \<open>Paint timing\<close>

lemma fpValue_paint_step:
  "fpValue (paint_step e v) =
     (if pe_name e = ''first-paint'' then Some (pe_startTime e) else fpValue v)"
  by (simp add: paint_step_def Let_def)

lemma fcpValue_paint_step:
  "fcpValue (paint_step e v) =
     (if pe_name e = ''first-contentful-paint'' then Some (pe_startTime e) else fcpValue v)"
  by (simp add: paint_step_def Let_def)

lemma fpValue_fold:
  "fpValue (fold paint_step es v) =
     (case last_startTime ''first-paint'' es of None \<Rightarrow> fpValue v | Some t \<Rightarrow> Some t)"
proof (induction es rule: rev_induct)
  case Nil
  show ?case by (simp add: last_startTime_def)
next
  case (snoc e es)
  show ?case
    by (simp add: fpValue_paint_step snoc.IH last_startTime_def Let_def)
qed

lemma fcpValue_fold:
  "fcpValue (fold paint_step es v) =
     (case last_startTime ''first-contentful-paint'' es of
        None \<Rightarrow> fcpValue v | Some t \<Rightarrow> Some t)"
proof (induction es rule: rev_induct)
  case Nil
  show ?case by (simp add: last_startTime_def)
next
  case (snoc e es)
  show ?case
    by (simp add: fcpValue_paint_step snoc.IH last_startTime_def Let_def)
qed

lemma paint_batches_fold:
  "fold paintObserver batches v = fold paint_step (concat batches) v"
  by (induction batches arbitrary: v) (simp_all add: paintObserver_def)

text \<open>
  Claim C7, as amended. After any sequence of paint batches \<open>fpValue\<close> and \<open>fcpValue\<close>
  hold the \<^verbatim>\<open>startTime\<close> of the last observed entry named \<^verbatim>\<open>first-paint\<close> and
  \<^verbatim>\<open>first-contentful-paint\<close> (and \<^verbatim>\<open>null\<close> while none was observed). A callback whose
  batch has no entry of a name leaves that value as it was, and when the whole sequence
  has exactly one entry of a name, the value is that entry's \<^verbatim>\<open>startTime\<close>.
\<close>

theorem paint_values_hold_last_entry:
  "fpValue (after_paint_batches batches) = last_startTime ''first-paint'' (concat batches)
   \<and> fcpValue (after_paint_batches batches) =
       last_startTime ''first-contentful-paint'' (concat batches)
   \<and> ((\<forall>e\<in>set b. pe_name e \<noteq> ''first-paint'') \<longrightarrow>
        fpValue (after_paint_batches (batches @ [b])) = fpValue (after_paint_batches batches))
   \<and> ((\<forall>e\<in>set b. pe_name e \<noteq> ''first-contentful-paint'') \<longrightarrow>
        fcpValue (after_paint_batches (batches @ [b])) = fcpValue (after_paint_batches batches))
   \<and> (filter (\<lambda>e. pe_name e = ''first-paint'') (concat batches) = [e1] \<longrightarrow>
        fpValue (after_paint_batches batches) = Some (pe_startTime e1))
   \<and> (filter (\<lambda>e. pe_name e = ''first-contentful-paint'') (concat batches) = [e2] \<longrightarrow>
        fcpValue (after_paint_batches batches) = Some (pe_startTime e2))"
proof -
  have fp: "fpValue (after_paint_batches bs) = last_startTime ''first-paint'' (concat bs)"
    for bs
    by (simp add: after_paint_batches_def paint_batches_fold fpValue_fold initial_vitals_def
        split: option.split)
  have fcp: "fcpValue (after_paint_batches bs) =
      last_startTime ''first-contentful-paint'' (concat bs)" for bs
    by (simp add: after_paint_batches_def paint_batches_fold fcpValue_fold initial_vitals_def
        split: option.split)
  have keep: "(\<forall>e\<in>set b. pe_name e \<noteq> n) \<longrightarrow>
      last_startTime n (concat (batches @ [b])) = last_startTime n (concat batches)" for n
    by (simp add: last_startTime_def Let_def filter_empty_conv)
  have one: "filter (\<lambda>e. pe_name e = n) (concat batches) = [e] \<longrightarrow>
      last_startTime n (concat batches) = Some (pe_startTime e)" for n e
    by (simp add: last_startTime_def Let_def)
  show ?thesis
    using keep [of "''first-paint''"] keep [of "''first-contentful-paint''"]
      one [of "''first-paint''" e1] one [of "''first-contentful-paint''" e2]
    unfolding fp fcp by blast
qed

text \<open>
  Claim C7 as stated fails: the callback assigns without testing for \<^verbatim>\<open>null\<close>, so a
  second \<^verbatim>\<open>first-paint\<close> entry in a later batch replaces the value 10 by 20.
\<close>

theorem paint_value_revised_counterexample:
  "fpValue (after_paint_batches [[\<lparr>pe_name = ''first-paint'', pe_startTime = 10\<rparr>]]) = Some 10
   \<and> fpValue (after_paint_batches
        [[\<lparr>pe_name = ''first-paint'', pe_startTime = 10\<rparr>],
         [\<lparr>pe_name = ''first-paint'', pe_startTime = 20\<rparr>]]) = Some 20"
  by (simp add: after_paint_batches_def paintObserver_def paint_step_def initial_vitals_def)

text \<open>One entry of each name, in two batches.\<close>

theorem paint_values_hold_last_entry_witness:
  "fpValue (after_paint_batches
      [[\<lparr>pe_name = ''first-paint'', pe_startTime = 10\<rparr>],
       [\<lparr>pe_name = ''first-contentful-paint'', pe_startTime = 12\<rparr>]]) = Some 10
   \<and> fcpValue (after_paint_batches
      [[\<lparr>pe_name = ''first-paint'', pe_startTime = 10\<rparr>],
       [\<lparr>pe_name = ''first-contentful-paint'', pe_startTime = 12\<rparr>]]) = Some 12"
  using paint_values_hold_last_entry
    [of "[[\<lparr>pe_name = ''first-paint'', pe_startTime = 10\<rparr>],
       [\<lparr>pe_name = ''first-contentful-paint'', pe_startTime = 12\<rparr>]]"
      "[]" "\<lparr>pe_name = ''first-paint'', pe_startTime = 10\<rparr>"
      "\<lparr>pe_name = ''first-contentful-paint'', pe_startTime = 12\<rparr>"]
  by (simp add: last_startTime_def)

section \<open>Properties of the resource metrics\<close>

lemma length_collectResourceMetrics:
  "length (collectResourceMetrics rs) = length (filter (\<lambda>r. initiatorType r \<noteq> ''beacon'') rs)"
  by (simp add: collectResourceMetrics_def)

lemma collectResourceMetrics_append:
  "collectResourceMetrics (xs @ ys) = collectResourceMetrics xs @ collectResourceMetrics ys"
  by (simp add: collectResourceMetrics_def)

text \<open>
  Claim C8, as amended. \<^verbatim>\<open>collectResourceMetrics\<close> returns, in order, one record for each
  entry whose initiator type is not the string \<^verbatim>\<open>beacon\<close>, with the entry's name,
  initiator type, duration, transfer size (or \<^verbatim>\<open>null\<close>), start time and response end.
  Of the agent's own deliveries, those made with \<^verbatim>\<open>sendBeacon\<close> are left out and those
  made with \<^verbatim>\<open>fetch\<close> are listed.
\<close>

theorem resource_metrics_exclude_beacon_entries_only:
  "length (collectResourceMetrics rs) = length (filter (\<lambda>r. initiatorType r \<noteq> ''beacon'') rs)
   \<and> (\<forall>i < length (collectResourceMetrics rs).
        rm_name (collectResourceMetrics rs ! i)
          = re_name (filter (\<lambda>r. initiatorType r \<noteq> ''beacon'') rs ! i)
        \<and> rm_type (collectResourceMetrics rs ! i)
          = initiatorType (filter (\<lambda>r. initiatorType r \<noteq> ''beacon'') rs ! i)
        \<and> rm_duration (collectResourceMetrics rs ! i)
          = re_duration (filter (\<lambda>r. initiatorType r \<noteq> ''beacon'') rs ! i)
        \<and> rm_transferSize (collectResourceMetrics rs ! i)
          = transferSize_or_null
              (transferSize (filter (\<lambda>r. initiatorType r \<noteq> ''beacon'') rs ! i))
        \<and> rm_startTime (collectResourceMetrics rs ! i)
          = re_startTime (filter (\<lambda>r. initiatorType r \<noteq> ''beacon'') rs ! i)
        \<and> rm_responseEnd (collectResourceMetrics rs ! i)
          = responseEnd (filter (\<lambda>r. initiatorType r \<noteq> ''beacon'') rs ! i))
   \<and> map rm_name (collectResourceMetrics (map (entry_of_delivery started ended bytes) ds))
       = map delivery_url (filter (\<lambda>d. \<not> is_beacon d) ds)"
proof -
  have names: "map rm_name (collectResourceMetrics (map (entry_of_delivery started ended bytes) ds))
       = map delivery_url (filter (\<lambda>d. \<not> is_beacon d) ds)"
    by (induction ds) (simp_all add: collectResourceMetrics_def entry_of_delivery_def)
  show ?thesis
    by (simp add: names) (simp add: collectResourceMetrics_def)
qed

text \<open>
  Claim C8 as stated fails: an error envelope is delivered with \<^verbatim>\<open>fetch\<close>, its resource
  entry has initiator type \<^verbatim>\<open>fetch\<close>, and the collection lists it.
\<close>

theorem fetch_delivery_listed_counterexample:
  "map rm_name
     (collectResourceMetrics
        (map (entry_of_delivery 10 25 (Some 120))
           (emitted example_world
              (sendError example_config [(''trigger'', JStr ''js_error'')] example_world))))
   = [''http://localhost:8000/rum/errors'']"
  by (simp add: emitted_sendError collectResourceMetrics_def entry_of_delivery_def
      example_config_def)

text \<open>A script load and a beacon: only the script load is listed.\<close>

theorem resource_metrics_exclude_beacon_entries_only_witness:
  "map rm_name
     (collectResourceMetrics
        [\<lparr>re_name = ''http://shop.test/app.js'', initiatorType = ''script'', re_duration = 5,
          transferSize = Some 900, re_startTime = 1, responseEnd = 6\<rparr>,
         \<lparr>re_name = ''http://localhost:8000/rum/page-metrics'', initiatorType = ''beacon'',
          re_duration = 2, transferSize = None, re_startTime = 7, responseEnd = 9\<rparr>])
   = [''http://shop.test/app.js'']
   \<and> length (collectResourceMetrics
        [\<lparr>re_name = ''http://shop.test/app.js'', initiatorType = ''script'', re_duration = 5,
          transferSize = Some 900, re_startTime = 1, responseEnd = 6\<rparr>,
         \<lparr>re_name = ''http://localhost:8000/rum/page-metrics'', initiatorType = ''beacon'',
          re_duration = 2, transferSize = None, re_startTime = 7, responseEnd = 9\<rparr>]) = 1"
  using resource_metrics_exclude_beacon_entries_only
    [of "[\<lparr>re_name = ''http://shop.test/app.js'', initiatorType = ''script'', re_duration = 5,
          transferSize = Some 900, re_startTime = 1, responseEnd = 6\<rparr>,
         \<lparr>re_name = ''http://localhost:8000/rum/page-metrics'', initiatorType = ''beacon'',
          re_duration = 2, transferSize = None, re_startTime = 7, responseEnd = 9\<rparr>]" 0 0 None "[]"]
  by (simp add: collectResourceMetrics_def)

text \<open>
  Claim C10. For an entry whose \<open>transferSize\<close> is 0, the result of the collection is
  the one obtained when the browser supplies no \<open>transferSize\<close> for that entry; if the
  entry is listed (its initiator type is not \<^verbatim>\<open>beacon\<close>), its record, wherever the entry
  stands in the list, has \<open>transferSize\<close> \<^verbatim>\<open>null\<close>; and no record of the result has
  \<open>transferSize\<close> 0.
\<close>

theorem zero_transferSize_reported_as_null:
  assumes "transferSize r = Some 0"
  shows "collectResourceMetrics (before @ r\<lparr>transferSize := None\<rparr> # after)
           = collectResourceMetrics (before @ r # after)
       \<and> (initiatorType r \<noteq> ''beacon'' \<longrightarrow>
            rm_transferSize
              (collectResourceMetrics (before @ r # after)
                 ! length (collectResourceMetrics before)) = None
            \<and> rm_name
              (collectResourceMetrics (before @ r # after)
                 ! length (collectResourceMetrics before)) = re_name r)
       \<and> Some 0 \<notin> set (map rm_transferSize (collectResourceMetrics (before @ r # after)))"
proof -
  have no_zero: "Some 0 \<notin> set (map rm_transferSize (collectResourceMetrics rs))" for rs
    by (induction rs)
      (simp_all add: collectResourceMetrics_def transferSize_or_null_def split: option.split)
  show ?thesis
    using assms no_zero [of "before @ r # after"]
    by (simp add: collectResourceMetrics_def transferSize_or_null_def nth_append)
qed

text \<open>An image served from the cache.\<close>

theorem zero_transferSize_reported_as_null_witness:
  "rm_transferSize
     (collectResourceMetrics
        [\<lparr>re_name = ''http://shop.test/logo.png'', initiatorType = ''img'', re_duration = 1,
          transferSize = Some 0, re_startTime = 3, responseEnd = 4\<rparr>] ! 0) = None
   \<and> collectResourceMetrics
        [\<lparr>re_name = ''http://shop.test/logo.png'', initiatorType = ''img'', re_duration = 1,
          transferSize = None, re_startTime = 3, responseEnd = 4\<rparr>]
     = collectResourceMetrics
        [\<lparr>re_name = ''http://shop.test/logo.png'', initiatorType = ''img'', re_duration = 1,
          transferSize = Some 0, re_startTime = 3, responseEnd = 4\<rparr>]"
  using zero_transferSize_reported_as_null
    [of "\<lparr>re_name = ''http://shop.test/logo.png'', initiatorType = ''img'', re_duration = 1,
          transferSize = Some 0, re_startTime = 3, responseEnd = 4\<rparr>" "[]" "[]"]
  by (simp add: collectResourceMetrics_def)

section \<open>Session end: one envelope per listener\<close>

lemma trigger_of_spread_rumIds:
  "trigger_of (Beacon u (spread data (rumIds cfg))) = map_of data ''trigger''"
  "trigger_of (Request u (spread data (rumIds cfg))) = map_of data ''trigger''"
  by (simp_all add: trigger_of_def map_of_spread rumIds_def map_add_def)

lemma with_trigger_simps:
  "with_trigger n [] = []"
  "with_trigger n (d # ds) = (if trigger_of d = Some (JStr n) then d # with_trigger n ds
                              else with_trigger n ds)"
  "with_trigger n (xs @ ys) = with_trigger n xs @ with_trigger n ys"
  by (simp_all add: with_trigger_def)

lemma sent_sendMetrics:
  "sent (sendMetrics cfg data w) = sent w @ emitted w (sendMetrics cfg data w)"
  by (simp add: sendMetrics_def post_def emitted_def Let_def)

lemma sent_session_end_handler:
  "\<exists>ds. sent (session_end_handler cfg evt w) = sent w @ ds
      \<and> length (with_trigger ''session_end'' ds)
          = (if doc_hidden w \<or> evt \<noteq> Visibilitychange then 1 else 0)"
proof (cases "doc_hidden w \<or> evt \<noteq> Visibilitychange")
  case True
  let ?data = "[(''trigger'', JStr ''session_end''),
              (''session'', JObj
                 [(''start_epoch_ms'', stored_session_start w),
                  (''end_ts'', JIso (date_now w)),
                  (''end_epoch_ms'', JNum (date_now w))])]"
  have "sent (session_end_handler cfg evt w) = sent w @ emitted w (sendMetrics cfg ?data w)"
    using True by (simp add: session_end_handler_def sent_sendMetrics)
  moreover have "length (with_trigger ''session_end'' (emitted w (sendMetrics cfg ?data w))) = 1"
    by (simp add: emitted_sendMetrics with_trigger_simps trigger_of_spread_rumIds)
  ultimately show ?thesis using True by auto
next
  case False
  then show ?thesis by (simp add: session_end_handler_def with_trigger_simps)
qed

lemma run_unload_count:
  "distinct ls \<Longrightarrow>
     \<exists>ds. sent (snd (run_unload cfg evs (ls, w))) = sent w @ ds
        \<and> length (with_trigger ''session_end'' ds) = ends_expected ls evs"
proof (induction evs arbitrary: ls w)
  case Nil
  show ?case by (simp add: ends_expected_def fired_def first_visibilitychange_hidden_def
        with_trigger_simps)
next
  case (Cons ev evs)
  obtain evt hidden t where ev: "ev = (evt, hidden, t)" by (cases ev)
  let ?w = "w\<lparr>doc_hidden := hidden, date_now := t\<rparr>"
  show ?case
  proof (cases "evt \<in> set ls")
    case False
    from Cons.IH [OF Cons.prems, of ?w]
    obtain ds where ds: "sent (snd (run_unload cfg evs (ls, ?w))) = sent w @ ds"
      "length (with_trigger ''session_end'' ds) = ends_expected ls evs"
      by auto
    have "ends_expected ls (ev # evs) = ends_expected ls evs"
    proof (cases evt)
      case Pagehide
      with False show ?thesis
        by (simp add: ev ends_expected_def fired_def first_visibilitychange_hidden_def)
    next
      case Visibilitychange
      with False show ?thesis
        by (simp add: ev ends_expected_def fired_def first_visibilitychange_hidden_def)
    next
      case Beforeunload
      with False show ?thesis
        by (simp add: ev ends_expected_def fired_def first_visibilitychange_hidden_def)
    qed
    with ds show ?thesis using False by (simp add: ev fire_def)
  next
    case True
    obtain d1 where d1: "sent (session_end_handler cfg evt ?w) = sent w @ d1"
      "length (with_trigger ''session_end'' d1) = (if hidden \<or> evt \<noteq> Visibilitychange then 1 else 0)"
      using sent_session_end_handler [of cfg evt ?w] by auto
    have dist: "distinct (remove1 evt ls)" using Cons.prems by simp
    from Cons.IH [OF dist, of "session_end_handler cfg evt ?w"]
    obtain ds where ds:
      "sent (snd (run_unload cfg evs (remove1 evt ls, session_end_handler cfg evt ?w)))
         = sent (session_end_handler cfg evt ?w) @ ds"
      "length (with_trigger ''session_end'' ds) = ends_expected (remove1 evt ls) evs"
      by auto
    have "ends_expected ls (ev # evs)
        = (if hidden \<or> evt \<noteq> Visibilitychange then 1 else 0) + ends_expected (remove1 evt ls) evs"
    proof -
      have mem: "set (remove1 x ls) = set ls - {x}" for x
        using Cons.prems by (rule set_remove1_eq)
      show ?thesis
      proof (cases evt)
        case Pagehide
        with True show ?thesis
          by (simp add: ev mem ends_expected_def fired_def first_visibilitychange_hidden_def)
      next
        case Visibilitychange
        with True show ?thesis
          by (simp add: ev mem ends_expected_def fired_def first_visibilitychange_hidden_def)
      next
        case Beforeunload
        with True show ?thesis
          by (simp add: ev mem ends_expected_def fired_def first_visibilitychange_hidden_def)
      qed
    qed
    with d1 ds show ?thesis using True
      by (simp add: ev fire_def with_trigger_simps)
  qed
qed

lemma length_session_ends:
  "length (session_ends cfg evs w) = ends_expected session_end_listeners evs"
proof -
  obtain ds where ds: "sent (snd (run_unload cfg evs (session_end_listeners, w))) = sent w @ ds"
    "length (with_trigger ''session_end'' ds) = ends_expected session_end_listeners evs"
    using run_unload_count [of session_end_listeners cfg evs w]
    by (auto simp: session_end_listeners_def)
  then show ?thesis
    by (simp add: session_ends_def emitted_def)
qed

text \<open>
  Claim C1, as amended. Each of the three listeners runs at most once. For every sequence
  of \<^verbatim>\<open>pagehide\<close>, \<^verbatim>\<open>visibilitychange\<close> and \<^verbatim>\<open>beforeunload\<close> events the number of
  session-end envelopes sent is one if \<^verbatim>\<open>pagehide\<close> fired, plus one if \<^verbatim>\<open>beforeunload\<close>
  fired, plus one if the first \<^verbatim>\<open>visibilitychange\<close> fired while the document was
  hidden: at most three, and at most one per event name however often it fires.
\<close>

theorem session_end_once_per_listener:
  "length (session_ends cfg evs w) =
     (if fired Pagehide evs then 1 else 0)
     + (if fired Beforeunload evs then 1 else 0)
     + (if first_visibilitychange_hidden evs then 1 else 0)
   \<and> length (session_ends cfg evs w) \<le> 3"
  by (simp add: length_session_ends ends_expected_def session_end_listeners_def)

text \<open>
  Claim C1 as stated fails: \<^verbatim>\<open>pagehide\<close> followed by \<^verbatim>\<open>beforeunload\<close> runs two
  listeners, and each sends a session-end envelope.
\<close>

theorem two_session_ends_counterexample:
  "length (session_ends example_config [(Pagehide, True, 2000), (Beforeunload, True, 2001)]
             example_world) = 2"
  by (simp add: length_session_ends ends_expected_def session_end_listeners_def fired_def
      first_visibilitychange_hidden_def)

text \<open>
  The tab is shown, then hidden, then \<^verbatim>\<open>pagehide\<close> fires twice: the listener for
  \<^verbatim>\<open>visibilitychange\<close> was used up while the document was visible, and one envelope is
  sent, by the first \<^verbatim>\<open>pagehide\<close>.
\<close>

theorem session_end_once_per_listener_witness:
  "length (session_ends example_config
      [(Visibilitychange, False, 1500), (Visibilitychange, True, 1900), (Pagehide, True, 2000),
       (Pagehide, True, 2001)] example_world) = 1"
  using session_end_once_per_listener [of example_config
      "[(Visibilitychange, False, 1500), (Visibilitychange, True, 1900), (Pagehide, True, 2000),
       (Pagehide, True, 2001)]" example_world]
  by (simp add: fired_def first_visibilitychange_hidden_def)

section \<open>What one call through a shim hands over\<close>

lemma sent_sendError:
  "sent (sendError cfg data w) =
     sent w @ [Request (errorsBaseUrl cfg @ ''/rum/errors'') (spread data (rumIds cfg))]"
  by (simp add: sendError_def post_def Let_def)

lemma sent_sendMetrics_explicit:
  "sent (sendMetrics cfg data w) =
     sent w @ [if has_sendBeacon w
               then Beacon (apiBaseUrl cfg @ ''/rum/page-metrics'') (spread data (rumIds cfg))
               else Request (apiBaseUrl cfg @ ''/rum/page-metrics'') (spread data (rumIds cfg))]"
  by (simp add: sendMetrics_def post_def Let_def)

lemma sent_sendError_sass:
  "sent (sendError_sass cfg data w) =
     sent w @ [Request (errorsBaseUrl cfg @ ''/rum/errors'') (spread data (rumIds cfg))]"
  by (simp add: sendError_sass_def Let_def)

lemma sent_sendMetrics_sass:
  "sent (sendMetrics_sass cfg data w) =
     sent w @ [if has_sendBeacon w
               then Beacon (apiBaseUrl cfg @ ''/rum/page-metrics'') (spread data (rumIds cfg))
               else Request (apiBaseUrl cfg @ ''/rum/page-metrics'') (spread data (rumIds cfg))]"
  by (simp add: sendMetrics_sass_def Let_def)

lemma sent_sendMetrics_sass2:
  "sent (sendMetrics_sass2 cfg data w) =
     sent w @ [if has_sendBeacon w
               then Beacon ''http://localhost:8000/rum/page-metrics'' (spread data (rumIds cfg))
               else Request ''http://localhost:8000/rum/page-metrics'' (spread data (rumIds cfg))]"
  by (simp add: sendMetrics_sass2_def Let_def rumIds_def)

lemma emitted_append: "sent w' = sent w @ ds \<Longrightarrow> emitted w w' = ds"
  by (simp add: emitted_def)

lemma api_field_spread_rumIds:
  "api_field (Beacon u (spread data (rumIds cfg))) k =
     (case map_of data ''api'' of Some (JObj api) \<Rightarrow> map_of api k | _ \<Rightarrow> None)"
  "api_field (Request u (spread data (rumIds cfg))) k =
     (case map_of data ''api'' of Some (JObj api) \<Rightarrow> map_of api k | _ \<Rightarrow> None)"
  by (simp_all add: api_field_def map_of_spread rumIds_def map_add_def)

lemma window_fetch_rejected:
  assumes "fetchFn input (Some (with_rum_headers cfg init0)) w = (Rejected err, w1)"
  shows "fst (window_fetch cfg fetchFn input init0 w) = Rejected err"
    and "\<exists>d. sent (snd (window_fetch cfg fetchFn input init0 w)) = sent w1 @ [d]
           \<and> \<not> is_beacon d
           \<and> delivery_url d = errorsBaseUrl cfg @ ''/rum/errors''
           \<and> trigger_of d = Some (JStr ''api_call_exception'')
           \<and> api_field d ''status'' = Some JNull
           \<and> api_field d ''error'' = Some (js_or (js_get_opt err ''message'') (js_String err))"
  using assms
  by (simp_all add: window_fetch_def Let_def sent_sendError trigger_of_spread_rumIds
      api_field_spread_rumIds)

lemma window_fetch_resolved:
  assumes "fetchFn input (Some (with_rum_headers cfg init0)) w = (Resolved r, w1)"
  shows "fst (window_fetch cfg fetchFn input init0 w) = Resolved r"
    and "\<exists>d. sent (snd (window_fetch cfg fetchFn input init0 w)) = sent w1 @ [d]
           \<and> is_beacon d = (resp_status r < 400 \<and> has_sendBeacon w1)
           \<and> delivery_url d = (if 400 \<le> resp_status r then errorsBaseUrl cfg @ ''/rum/errors''
                                else apiBaseUrl cfg @ ''/rum/page-metrics'')
           \<and> trigger_of d = Some (JStr (if 400 \<le> resp_status r then ''api_call_error''
                                         else ''api_call''))
           \<and> api_field d ''status'' = Some (JNum (real (resp_status r)))"
  using assms
  by (simp_all add: window_fetch_def Let_def sent_sendError sent_sendMetrics_explicit
      trigger_of_spread_rumIds api_field_spread_rumIds)

lemma window_fetch_sass_rejected:
  assumes "fetchFn input (Some (with_rum_headers cfg init0)) w = (Rejected err, w1)"
    and "js_get err ''message'' = Some m"
  shows "fst (window_fetch_sass cfg fetchFn input init0 w) = Rejected err"
    and "\<exists>d. sent (snd (window_fetch_sass cfg fetchFn input init0 w)) = sent w1 @ [d]
           \<and> \<not> is_beacon d
           \<and> delivery_url d = errorsBaseUrl cfg @ ''/rum/errors''
           \<and> trigger_of d = Some (JStr ''api_call_exception'')
           \<and> api_field d ''status'' = Some JNull
           \<and> api_field d ''error'' = Some m"
  using assms
  by (simp_all add: window_fetch_sass_def Let_def sent_sendError_sass trigger_of_spread_rumIds
      api_field_spread_rumIds api_fields_sass_def)

lemma window_fetch_sass_resolved:
  assumes "fetchFn input (Some (with_rum_headers cfg init0)) w = (Resolved r, w1)"
  shows "fst (window_fetch_sass cfg fetchFn input init0 w) = Resolved r"
    and "\<exists>d. sent (snd (window_fetch_sass cfg fetchFn input init0 w)) = sent w1 @ [d]
           \<and> is_beacon d = (resp_status r < 400 \<and> has_sendBeacon w1)
           \<and> delivery_url d = (if 400 \<le> resp_status r then errorsBaseUrl cfg @ ''/rum/errors''
                                else apiBaseUrl cfg @ ''/rum/page-metrics'')
           \<and> trigger_of d = Some (JStr (if 400 \<le> resp_status r then ''api_call_error''
                                         else ''api_call''))
           \<and> api_field d ''status'' = Some (JNum (real (resp_status r)))"
  using assms
  by (simp_all add: window_fetch_sass_def Let_def sent_sendError_sass sent_sendMetrics_sass
      trigger_of_spread_rumIds api_field_spread_rumIds api_fields_sass_def)

lemma window_fetch_sass2_rejected:
  assumes "fetchFn input init0 w = (Rejected err, w1)"
    and "js_get err ''message'' = Some m"
  shows "fst (window_fetch_sass2 cfg fetchFn input init0 w) = Rejected err"
    and "\<exists>d. sent (snd (window_fetch_sass2 cfg fetchFn input init0 w)) = sent w1 @ [d]
           \<and> is_beacon d = has_sendBeacon w1
           \<and> delivery_url d = ''http://localhost:8000/rum/page-metrics''
           \<and> trigger_of d = Some (JStr ''api_call_error'')
           \<and> api_field d ''status'' = Some JNull
           \<and> api_field d ''error'' = Some m"
  using assms
  by (simp_all add: window_fetch_sass2_def Let_def sent_sendMetrics_sass2
      trigger_of_spread_rumIds api_field_spread_rumIds api_fields_sass_def
      envelope_head_sass2_def map_add_def)

lemma window_fetch_sass2_resolved:
  assumes "fetchFn input init0 w = (Resolved r, w1)"
  shows "fst (window_fetch_sass2 cfg fetchFn input init0 w) = Resolved r"
    and "\<exists>d. sent (snd (window_fetch_sass2 cfg fetchFn input init0 w)) = sent w1 @ [d]
           \<and> is_beacon d = has_sendBeacon w1
           \<and> delivery_url d = ''http://localhost:8000/rum/page-metrics''
           \<and> trigger_of d = Some (JStr ''api_call'')
           \<and> api_field d ''status'' = Some (JNum (real (resp_status r)))"
  using assms
  by (simp_all add: window_fetch_sass2_def Let_def sent_sendMetrics_sass2
      trigger_of_spread_rumIds api_field_spread_rumIds api_fields_sass_def
      envelope_head_sass2_def map_add_def)

lemma window_fetch_sass_null_rejection:
  assumes "fetchFn input (Some (with_rum_headers cfg init0)) w = (Rejected err, w1)"
    and "err = JNull \<or> err = JUndefined"
  shows "window_fetch_sass cfg fetchFn input init0 w = (Rejected TypeError, w1)"
  using assms
  by (auto simp: window_fetch_sass_def Let_def js_get_def)

lemmas xhr_unfold =
  xhr_call_def native_open_def browser_loadend_def dispatch_xhr_def new_xhr_def
  set_rum_headers_def setRequestHeader_def Let_def

lemma xhr_open_call:
  "\<exists>d. sent (snd (xhr_call cfg (xhr_open (native_open cfg)) method url status t_end w))
          = sent w @ [d]
       \<and> is_beacon d = (status < 400 \<and> has_sendBeacon w)
       \<and> delivery_url d = (if 400 \<le> status then errorsBaseUrl cfg @ ''/rum/errors''
                            else apiBaseUrl cfg @ ''/rum/page-metrics'')
       \<and> trigger_of d = Some (JStr (if 400 \<le> status then ''api_call_error'' else ''api_call''))
       \<and> api_field d ''status'' = Some (JNum (real status))"
  by (simp add: xhr_unfold xhr_open_def sent_sendError sent_sendMetrics_explicit
      trigger_of_spread_rumIds api_field_spread_rumIds)


lemma xhr_open_sass_call:
  "\<exists>d. sent (snd (xhr_call cfg (xhr_open_sass (native_open cfg)) method url status t_end w))
          = sent w @ [d]
       \<and> is_beacon d = (status < 400 \<and> has_sendBeacon w)
       \<and> delivery_url d = (if 400 \<le> status then errorsBaseUrl cfg @ ''/rum/errors''
                            else apiBaseUrl cfg @ ''/rum/page-metrics'')
       \<and> trigger_of d = Some (JStr (if 400 \<le> status then ''api_call_error'' else ''api_call''))
       \<and> api_field d ''status'' = Some (JNum (real status))"
  by (simp add: xhr_unfold xhr_open_sass_def sent_sendError_sass sent_sendMetrics_sass
      trigger_of_spread_rumIds api_field_spread_rumIds api_fields_sass_def)

lemma xhr_open_sass2_call:
  "\<exists>d. sent (snd (xhr_call cfg (xhr_open_sass2 (native_open cfg)) method url status t_end w))
          = sent w @ [d]
       \<and> is_beacon d = has_sendBeacon w
       \<and> delivery_url d = ''http://localhost:8000/rum/page-metrics''
       \<and> trigger_of d = Some (JStr ''api_call'')
       \<and> api_field d ''status'' = Some (JNum (real status))"
  by (simp add: xhr_unfold xhr_open_sass2_def sent_sendMetrics_sass2
      trigger_of_spread_rumIds api_field_spread_rumIds api_fields_sass_def
      envelope_head_sass2_def map_add_def)










section \<open>Rejected fetch calls\<close>

text \<open>
  Claim C2, as amended. When the wrapped fetch function rejects with \<open>err\<close>: the shim of
  the main script sends exactly one record, with trigger \<^verbatim>\<open>api_call_exception\<close> and
  \<^verbatim>\<open>error\<close> field \<^verbatim>\<open>err?.message || String(err)\<close>, and rejects with \<open>err\<close> itself, for
  every \<open>err\<close>. For an \<open>err\<close> whose \<^verbatim>\<open>message\<close> can be read (any value but \<^verbatim>\<open>null\<close> and
  \<^verbatim>\<open>undefined\<close>), the shim of the first script of rum-sass.js does the same with
  \<^verbatim>\<open>error\<close> field \<^verbatim>\<open>err.message\<close>, and the shim of the second script of rum-sass.js sends
  exactly one record with trigger \<^verbatim>\<open>api_call_error\<close> and rejects with \<open>err\<close> itself.
\<close>

theorem rejected_fetch_reported_and_rethrown:
  "(fetchFn input (Some (with_rum_headers cfg init0)) w = (Rejected err, w1) \<longrightarrow>
      fst (window_fetch cfg fetchFn input init0 w) = Rejected err
      \<and> (\<exists>d. emitted w1 (snd (window_fetch cfg fetchFn input init0 w)) = [d]
            \<and> trigger_of d = Some (JStr ''api_call_exception'')
            \<and> api_field d ''error''
                = Some (js_or (js_get_opt err ''message'') (js_String err)))
      \<and> (js_get err ''message'' = Some m \<longrightarrow>
            fst (window_fetch_sass cfg fetchFn input init0 w) = Rejected err
            \<and> (\<exists>d. emitted w1 (snd (window_fetch_sass cfg fetchFn input init0 w)) = [d]
                  \<and> trigger_of d = Some (JStr ''api_call_exception'')
                  \<and> api_field d ''error'' = Some m)))
   \<and> (fetchFn input init0 w = (Rejected err, w1) \<and> js_get err ''message'' = Some m \<longrightarrow>
        fst (window_fetch_sass2 cfg fetchFn input init0 w) = Rejected err
        \<and> (\<exists>d. emitted w1 (snd (window_fetch_sass2 cfg fetchFn input init0 w)) = [d]
              \<and> trigger_of d = Some (JStr ''api_call_error'')
              \<and> api_field d ''error'' = Some m))"
proof (intro conjI impI)
  assume rej: "fetchFn input (Some (with_rum_headers cfg init0)) w = (Rejected err, w1)"
  show "fst (window_fetch cfg fetchFn input init0 w) = Rejected err"
    using rej window_fetch_rejected(1) [of fetchFn input cfg init0 w err w1] by simp
  show "\<exists>d. emitted w1 (snd (window_fetch cfg fetchFn input init0 w)) = [d]
            \<and> trigger_of d = Some (JStr ''api_call_exception'')
            \<and> api_field d ''error''
                = Some (js_or (js_get_opt err ''message'') (js_String err))"
    using rej window_fetch_rejected(2) [of fetchFn input cfg init0 w err w1]
    by (auto simp: emitted_def)
  assume m: "js_get err ''message'' = Some m"
  show "fst (window_fetch_sass cfg fetchFn input init0 w) = Rejected err"
    using rej m window_fetch_sass_rejected(1) [of fetchFn input cfg init0 w err w1 m] by simp
  show "\<exists>d. emitted w1 (snd (window_fetch_sass cfg fetchFn input init0 w)) = [d]
                  \<and> trigger_of d = Some (JStr ''api_call_exception'')
                  \<and> api_field d ''error'' = Some m"
    using rej m window_fetch_sass_rejected(2) [of fetchFn input cfg init0 w err w1 m]
    by (auto simp: emitted_def)
next
  assume a: "fetchFn input init0 w = (Rejected err, w1) \<and> js_get err ''message'' = Some m"
  then have rej: "fetchFn input init0 w = (Rejected err, w1)"
    and m: "js_get err ''message'' = Some m" by simp_all
  show "fst (window_fetch_sass2 cfg fetchFn input init0 w) = Rejected err"
    using rej m window_fetch_sass2_rejected(1) [of fetchFn input init0 w err w1 m cfg] by simp
  show "\<exists>d. emitted w1 (snd (window_fetch_sass2 cfg fetchFn input init0 w)) = [d]
              \<and> trigger_of d = Some (JStr ''api_call_error'')
              \<and> api_field d ''error'' = Some m"
    using rej m window_fetch_sass2_rejected(2) [of fetchFn input init0 w err w1 m cfg]
    by (auto simp: emitted_def)
qed

text \<open>
  A rejection with the string \<^verbatim>\<open>'offline'\<close>, which has no \<^verbatim>\<open>message\<close>: the record
  carries \<^verbatim>\<open>String(err)\<close> and the caller sees the string.
\<close>

theorem rejected_fetch_reported_and_rethrown_witness:
  "fst (window_fetch example_config (rejecting_fetch (JStr ''offline''))
          (InputString ''/api/orders'') None example_world) = Rejected (JStr ''offline'')
   \<and> map trigger_of
        (emitted (example_world\<lparr>perf_now := perf_now example_world + 30\<rparr>)
           (snd (window_fetch example_config (rejecting_fetch (JStr ''offline''))
                   (InputString ''/api/orders'') None example_world)))
       = [Some (JStr ''api_call_exception'')]
   \<and> map (\<lambda>d. api_field d ''error'')
        (emitted (example_world\<lparr>perf_now := perf_now example_world + 30\<rparr>)
           (snd (window_fetch example_config (rejecting_fetch (JStr ''offline''))
                   (InputString ''/api/orders'') None example_world)))
       = [Some (JStr ''offline'')]"
  using rejected_fetch_reported_and_rethrown
    [of "rejecting_fetch (JStr ''offline'')" "InputString ''/api/orders''" example_config None
      example_world "JStr ''offline''" "example_world\<lparr>perf_now := perf_now example_world + 30\<rparr>"
      JUndefined]
  by (auto simp: rejecting_fetch_def js_or_def js_get_opt_def js_get_def js_String_def)

text \<open>
  Claim C2 as stated fails in the second script of rum-sass.js: a rejected call sends no
  record with trigger \<^verbatim>\<open>api_call_exception\<close>; its one record has trigger
  \<^verbatim>\<open>api_call_error\<close>.
\<close>

theorem rejection_trigger_sass2_counterexample:
  "fst (window_fetch_sass2 example_config
          (rejecting_fetch (JObj [(''message'', JStr ''Failed to fetch'')]))
          (InputString ''/api/orders'') None example_world)
     = Rejected (JObj [(''message'', JStr ''Failed to fetch'')])
   \<and> with_trigger ''api_call_exception''
        (emitted example_world
           (snd (window_fetch_sass2 example_config
                   (rejecting_fetch (JObj [(''message'', JStr ''Failed to fetch'')]))
                   (InputString ''/api/orders'') None example_world))) = []
   \<and> map trigger_of
        (emitted example_world
           (snd (window_fetch_sass2 example_config
                   (rejecting_fetch (JObj [(''message'', JStr ''Failed to fetch'')]))
                   (InputString ''/api/orders'') None example_world)))
       = [Some (JStr ''api_call_error'')]"
  by (simp add: window_fetch_sass2_def rejecting_fetch_def js_get_def Let_def
      sent_sendMetrics_sass2 emitted_def example_world_def with_trigger_simps
      trigger_of_spread_rumIds envelope_head_sass2_def map_add_def)

text \<open>
  In the first script of rum-sass.js a rejection with \<^verbatim>\<open>null\<close> is not reported and not
  passed on: reading \<^verbatim>\<open>err.message\<close> throws, and the caller sees the TypeError.
\<close>

lemma null_rejection_replaced_sass:
  "window_fetch_sass example_config (rejecting_fetch JNull) (InputString ''/api/orders'') None
     example_world
   = (Rejected TypeError, example_world\<lparr>perf_now := perf_now example_world + 30\<rparr>)"
  by (simp add: window_fetch_sass_null_rejection rejecting_fetch_def)

section \<open>Classification by status\<close>

text \<open>
  Claim C3, as amended. In the main script and in the first script of rum-sass.js, a
  fetch call that resolves with a response, and a request on a new XMLHttpRequest object
  that ends, send exactly one record: with trigger \<^verbatim>\<open>api_call_error\<close> if and only if
  the status is at least 400, and with trigger \<^verbatim>\<open>api_call\<close> if and only if it is
  below 400. In the second script of rum-sass.js the one record has trigger \<^verbatim>\<open>api_call\<close>
  whatever the status.
\<close>

theorem status_classification:
  "(fetchFn input (Some (with_rum_headers cfg init0)) w = (Resolved r, w1) \<longrightarrow>
      (\<exists>d. emitted w1 (snd (window_fetch cfg fetchFn input init0 w)) = [d]
          \<and> (trigger_of d = Some (JStr ''api_call_error'') \<longleftrightarrow> 400 \<le> resp_status r)
          \<and> (trigger_of d = Some (JStr ''api_call'') \<longleftrightarrow> resp_status r < 400))
      \<and> (\<exists>d. emitted w1 (snd (window_fetch_sass cfg fetchFn input init0 w)) = [d]
          \<and> (trigger_of d = Some (JStr ''api_call_error'') \<longleftrightarrow> 400 \<le> resp_status r)
          \<and> (trigger_of d = Some (JStr ''api_call'') \<longleftrightarrow> resp_status r < 400)))
   \<and> (\<exists>d. emitted w
             (snd (xhr_call cfg (xhr_open (native_open cfg)) method url status t_end w)) = [d]
          \<and> (trigger_of d = Some (JStr ''api_call_error'') \<longleftrightarrow> 400 \<le> status)
          \<and> (trigger_of d = Some (JStr ''api_call'') \<longleftrightarrow> status < 400))
   \<and> (\<exists>d. emitted w
             (snd (xhr_call cfg (xhr_open_sass (native_open cfg)) method url status t_end w))
            = [d]
          \<and> (trigger_of d = Some (JStr ''api_call_error'') \<longleftrightarrow> 400 \<le> status)
          \<and> (trigger_of d = Some (JStr ''api_call'') \<longleftrightarrow> status < 400))
   \<and> (fetchFn input init0 w = (Resolved r, w1) \<longrightarrow>
        (\<exists>d. emitted w1 (snd (window_fetch_sass2 cfg fetchFn input init0 w)) = [d]
            \<and> trigger_of d = Some (JStr ''api_call'')))
   \<and> (\<exists>d. emitted w
             (snd (xhr_call cfg (xhr_open_sass2 (native_open cfg)) method url status t_end w))
            = [d]
          \<and> trigger_of d = Some (JStr ''api_call''))"
proof (intro conjI impI)
  assume res: "fetchFn input (Some (with_rum_headers cfg init0)) w = (Resolved r, w1)"
  show "\<exists>d. emitted w1 (snd (window_fetch cfg fetchFn input init0 w)) = [d]
          \<and> (trigger_of d = Some (JStr ''api_call_error'') \<longleftrightarrow> 400 \<le> resp_status r)
          \<and> (trigger_of d = Some (JStr ''api_call'') \<longleftrightarrow> resp_status r < 400)"
    using res window_fetch_resolved(2) [of fetchFn input cfg init0 w r w1]
    by (auto simp: emitted_def)
  show "\<exists>d. emitted w1 (snd (window_fetch_sass cfg fetchFn input init0 w)) = [d]
          \<and> (trigger_of d = Some (JStr ''api_call_error'') \<longleftrightarrow> 400 \<le> resp_status r)
          \<and> (trigger_of d = Some (JStr ''api_call'') \<longleftrightarrow> resp_status r < 400)"
    using res window_fetch_sass_resolved(2) [of fetchFn input cfg init0 w r w1]
    by (auto simp: emitted_def)
next
  show "\<exists>d. emitted w
             (snd (xhr_call cfg (xhr_open (native_open cfg)) method url status t_end w)) = [d]
          \<and> (trigger_of d = Some (JStr ''api_call_error'') \<longleftrightarrow> 400 \<le> status)
          \<and> (trigger_of d = Some (JStr ''api_call'') \<longleftrightarrow> status < 400)"
    using xhr_open_call [of cfg "method" url status t_end w] by (auto simp: emitted_def)
next
  show "\<exists>d. emitted w
             (snd (xhr_call cfg (xhr_open_sass (native_open cfg)) method url status t_end w))
            = [d]
          \<and> (trigger_of d = Some (JStr ''api_call_error'') \<longleftrightarrow> 400 \<le> status)
          \<and> (trigger_of d = Some (JStr ''api_call'') \<longleftrightarrow> status < 400)"
    using xhr_open_sass_call [of cfg "method" url status t_end w] by (auto simp: emitted_def)
next
  assume res: "fetchFn input init0 w = (Resolved r, w1)"
  show "\<exists>d. emitted w1 (snd (window_fetch_sass2 cfg fetchFn input init0 w)) = [d]
            \<and> trigger_of d = Some (JStr ''api_call'')"
    using res window_fetch_sass2_resolved(2) [of fetchFn input init0 w r w1 cfg]
    by (auto simp: emitted_def)
next
  show "\<exists>d. emitted w
             (snd (xhr_call cfg (xhr_open_sass2 (native_open cfg)) method url status t_end w))
            = [d]
          \<and> trigger_of d = Some (JStr ''api_call'')"
    using xhr_open_sass2_call [of cfg "method" url status t_end w] by (auto simp: emitted_def)
qed

text \<open>A fetch call answered with status 500 and a request answered with status 200.\<close>

theorem status_classification_witness:
  "map trigger_of
     (emitted (example_world\<lparr>perf_now := perf_now example_world + 30\<rparr>)
        (snd (window_fetch example_config (responding_fetch 500) (InputString ''/api/orders'')
                None example_world)))
   = [Some (JStr ''api_call_error'')]
   \<and> map trigger_of
       (emitted example_world
          (snd (xhr_call example_config (xhr_open (native_open example_config)) ''get''
                  ''/api/orders'' 200 180 example_world)))
     = [Some (JStr ''api_call'')]"
  using status_classification
    [of "responding_fetch 500" "InputString ''/api/orders''" example_config None example_world
      "\<lparr>resp_status = 500, resp_body = ''{}''\<rparr>"
      "example_world\<lparr>perf_now := perf_now example_world + 30\<rparr>" "''get''" "''/api/orders''"
      200 180]
  by (auto simp: responding_fetch_def)

text \<open>
  Claim C3 as stated fails in the second script of rum-sass.js: a request that ends with
  status 500 sends no error record and one \<^verbatim>\<open>api_call\<close> record.
\<close>

theorem status_500_unclassified_sass2_counterexample:
  "with_trigger ''api_call_error''
     (emitted example_world
        (snd (xhr_call example_config (xhr_open_sass2 (native_open example_config)) ''GET''
                ''/api/orders'' 500 180 example_world))) = []
   \<and> map trigger_of
       (emitted example_world
          (snd (xhr_call example_config (xhr_open_sass2 (native_open example_config)) ''GET''
                  ''/api/orders'' 500 180 example_world)))
     = [Some (JStr ''api_call'')]"
  by (simp add: xhr_unfold xhr_open_sass2_def sent_sendMetrics_sass2 emitted_def
      example_world_def with_trigger_simps trigger_of_spread_rumIds envelope_head_sass2_def
      map_add_def)

section \<open>Applying a shim more than once\<close>




section \<open>Delivery channels\<close>

text \<open>
  Claim C6, as amended. In the main script and in the first script of rum-sass.js,
  \<^verbatim>\<open>sendError\<close> always hands the payload to \<^verbatim>\<open>fetch\<close> with the errors URL, and
  \<^verbatim>\<open>sendMetrics\<close> hands it to \<^verbatim>\<open>sendBeacon\<close> when that exists and to \<^verbatim>\<open>fetch\<close> otherwise,
  with the metrics URL; the listeners for uncaught errors and unhandled rejections, and
  the fetch and XMLHttpRequest shims for a rejected call or a status of at least 400,
  deliver through \<^verbatim>\<open>sendError\<close>. The second script of rum-sass.js has no \<^verbatim>\<open>sendError\<close>: its error
  listeners deliver like metrics, by \<^verbatim>\<open>sendBeacon\<close> when that exists, to its metrics URL.
\<close>

theorem delivery_channels:
  "emitted w (sendError cfg data w)
     = [Request (errorsBaseUrl cfg @ ''/rum/errors'') (spread data (rumIds cfg))]
   \<and> emitted w (sendError_sass cfg data w)
     = [Request (errorsBaseUrl cfg @ ''/rum/errors'') (spread data (rumIds cfg))]
   \<and> emitted w (sendMetrics cfg data w)
     = [if has_sendBeacon w
        then Beacon (apiBaseUrl cfg @ ''/rum/page-metrics'') (spread data (rumIds cfg))
        else Request (apiBaseUrl cfg @ ''/rum/page-metrics'') (spread data (rumIds cfg))]
   \<and> emitted w (sendMetrics_sass cfg data w)
     = [if has_sendBeacon w
        then Beacon (apiBaseUrl cfg @ ''/rum/page-metrics'') (spread data (rumIds cfg))
        else Request (apiBaseUrl cfg @ ''/rum/page-metrics'') (spread data (rumIds cfg))]
   \<and> (\<forall>d \<in> set (emitted w (on_error cfg event w)
                  @ emitted w (on_unhandledrejection cfg reason w)
                  @ emitted w (on_error_sass cfg event w)
                  @ emitted w (on_unhandledrejection_sass cfg reason w)).
         \<not> is_beacon d \<and> delivery_url d = errorsBaseUrl cfg @ ''/rum/errors'')
   \<and> (fetchFn input (Some (with_rum_headers cfg init0)) w = (out, w1)
        \<and> (\<forall>r. out = Resolved r \<longrightarrow> 400 \<le> resp_status r) \<longrightarrow>
        (\<forall>d \<in> set (emitted w1 (snd (window_fetch cfg fetchFn input init0 w))
                    @ emitted w1 (snd (window_fetch_sass cfg fetchFn input init0 w))).
           \<not> is_beacon d \<and> delivery_url d = errorsBaseUrl cfg @ ''/rum/errors''))
   \<and> (400 \<le> status \<longrightarrow>
        (\<forall>d \<in> set (emitted w
                     (snd (xhr_call cfg (xhr_open (native_open cfg)) method url status t_end w))
                    @ emitted w
                     (snd (xhr_call cfg (xhr_open_sass (native_open cfg)) method url status
                             t_end w))).
           \<not> is_beacon d \<and> delivery_url d = errorsBaseUrl cfg @ ''/rum/errors''))
   \<and> (\<forall>d \<in> set (emitted w (on_error_sass2 cfg event w)
                  @ emitted w (on_unhandledrejection_sass2 cfg reason w)).
         is_beacon d = has_sendBeacon w
         \<and> delivery_url d = ''http://localhost:8000/rum/page-metrics'')"
proof (intro conjI impI)
  show "\<forall>d \<in> set (emitted w (on_error cfg event w)
                  @ emitted w (on_unhandledrejection cfg reason w)
                  @ emitted w (on_error_sass cfg event w)
                  @ emitted w (on_unhandledrejection_sass cfg reason w)).
         \<not> is_beacon d \<and> delivery_url d = errorsBaseUrl cfg @ ''/rum/errors''"
    by (simp add: on_error_def on_unhandledrejection_def on_error_sass_def
        on_unhandledrejection_sass_def emitted_sendError emitted_sendError_sass)
next
  assume a: "fetchFn input (Some (with_rum_headers cfg init0)) w = (out, w1)
        \<and> (\<forall>r. out = Resolved r \<longrightarrow> 400 \<le> resp_status r)"
  show "\<forall>d \<in> set (emitted w1 (snd (window_fetch cfg fetchFn input init0 w))
                    @ emitted w1 (snd (window_fetch_sass cfg fetchFn input init0 w))).
           \<not> is_beacon d \<and> delivery_url d = errorsBaseUrl cfg @ ''/rum/errors''"
  proof (cases out)
    case (Resolved r)
    with a window_fetch_resolved(2) [of fetchFn input cfg init0 w r w1]
      window_fetch_sass_resolved(2) [of fetchFn input cfg init0 w r w1]
    show ?thesis by (auto simp: emitted_def)
  next
    case (Rejected err)
    show ?thesis
    proof (cases "js_get err ''message''")
      case None
      then have "err = JNull \<or> err = JUndefined"
        by (cases err) (simp_all add: js_get_def split: option.splits)
      with a Rejected window_fetch_rejected(2) [of fetchFn input cfg init0 w err w1]
        window_fetch_sass_null_rejection [of fetchFn input cfg init0 w err w1]
      show ?thesis by (auto simp: emitted_def)
    next
      case (Some m)
      with a Rejected window_fetch_rejected(2) [of fetchFn input cfg init0 w err w1]
        window_fetch_sass_rejected(2) [of fetchFn input cfg init0 w err w1 m]
      show ?thesis by (auto simp: emitted_def)
    qed
  qed
next
  assume "400 \<le> status"
  then show "\<forall>d \<in> set (emitted w
                     (snd (xhr_call cfg (xhr_open (native_open cfg)) method url status t_end w))
                    @ emitted w
                     (snd (xhr_call cfg (xhr_open_sass (native_open cfg)) method url status
                             t_end w))).
           \<not> is_beacon d \<and> delivery_url d = errorsBaseUrl cfg @ ''/rum/errors''"
    using xhr_open_call [of cfg "method" url status t_end w]
      xhr_open_sass_call [of cfg "method" url status t_end w]
    by (auto simp: emitted_def)
next
  show "\<forall>d \<in> set (emitted w (on_error_sass2 cfg event w)
                  @ emitted w (on_unhandledrejection_sass2 cfg reason w)).
         is_beacon d = has_sendBeacon w
         \<and> delivery_url d = ''http://localhost:8000/rum/page-metrics''"
    by (simp add: on_error_sass2_def on_unhandledrejection_sass2_def emitted_sendMetrics_sass2)
qed (simp_all add: emitted_sendError emitted_sendError_sass emitted_sendMetrics
    emitted_sendMetrics_sass)

text \<open>An uncaught error and a heartbeat in a browser that has \<^verbatim>\<open>sendBeacon\<close>.\<close>

theorem delivery_channels_witness:
  "map is_beacon (emitted example_world (on_error example_config example_error_event example_world))
     = [False]
   \<and> map delivery_url
       (emitted example_world (on_error example_config example_error_event example_world))
     = [''http://localhost:8000/rum/errors'']
   \<and> map is_beacon
       (emitted example_world
          (sendMetrics example_config [(''trigger'', JStr ''heartbeat'')] example_world))
     = [True]"
  using delivery_channels
    [of example_world example_config "[(''trigger'', JStr ''heartbeat'')]" example_error_event
      JNull "responding_fetch 500" "InputString ''/api/orders''" None
      "Resolved \<lparr>resp_status = 500, resp_body = ''{}''\<rparr>"
      "example_world\<lparr>perf_now := perf_now example_world + 30\<rparr>" 500 "''GET''"
      "''/api/orders''" 180]
  by (simp add: on_error_def emitted_sendError example_config_def example_world_def)

text \<open>
  Claim C6 as stated fails in the second script of rum-sass.js: the envelope of an
  uncaught error goes out by \<^verbatim>\<open>sendBeacon\<close> to the metrics URL.
\<close>

theorem error_envelope_by_beacon_sass2_counterexample:
  "map is_beacon
     (emitted example_world (on_error_sass2 example_config example_error_event example_world))
     = [True]
   \<and> map delivery_url
       (emitted example_world (on_error_sass2 example_config example_error_event example_world))
     = [''http://localhost:8000/rum/page-metrics'']"
  by (simp add: on_error_sass2_def emitted_sendMetrics_sass2 example_world_def)

end
